theory Spec2Isabelle
  imports Main "HOL-Library.Word" "HOL-Library.Monad_Syntax"
begin

unbundle bit_operations_syntax

section \<open>Data model of the storage driver\<close>

text \<open>
  The driver of \<^verbatim>\<open>storage_driver.c\<close> works on pool objects, each owning an array of
  volume definitions. Byte counts are \<^verbatim>\<open>unsigned long long\<close> (64-bit words, arithmetic
  wraps), counters and flag sets are \<^verbatim>\<open>unsigned int\<close> (32-bit words), return codes are
  \<^verbatim>\<open>int\<close>. A pointer to a pool object is its position in \<^verbatim>\<open>driver->pools.objs\<close>, a
  pointer to a volume definition is its position in \<^verbatim>\<open>pool->volumes.objs\<close>.

  The model is sequential: mutexes are not represented, and while a pool lock is dropped
  around a long build no other call is interleaved. Failures of memory allocation
  (\<^verbatim>\<open>VIR_ALLOC\<close>, \<^verbatim>\<open>VIR_REALLOC_N\<close>, \<^verbatim>\<open>virGetStorageVol\<close>, \<^verbatim>\<open>virHashCreate\<close>) are
  not represented either.

  The structures are declared in \<^verbatim>\<open>storage_conf.h\<close>, which is not among the sources;
  the records below have the fields the driver reads and writes, under the names it uses,
  with the widths section 3 of the specification gives them.
\<close>

type_synonym u64 = "64 word"
type_synonym uint = "32 word"
type_synonym uuid = "8 word list"

datatype virErrorNumber =
    VIR_ERR_INTERNAL_ERROR
  | VIR_ERR_NO_SUPPORT
  | VIR_ERR_INVALID_ARG
  | VIR_ERR_OPERATION_FAILED
  | VIR_ERR_SYSTEM_ERROR
  | VIR_ERR_OPERATION_INVALID
  | VIR_ERR_NO_STORAGE_POOL
  | VIR_ERR_NO_STORAGE_VOL
  | VIR_ERR_STORAGE_VOL_EXIST

text \<open>
  Some failures are reported by a collaborator whose code is outside this file (a backend
  plugin, the XML parser, the access-control check, the file helpers); the driver only
  sees the negative return code. \<open>ErrorFrom\<close> stands for the error such a collaborator left.
\<close>

datatype collaborator =
  Backend | Parser | AccessControl | BackendRegistry | Persistence | PoolStore | FileHelper

datatype virError =
    VirError virErrorNumber string
  | ErrorFrom collaborator

record virStorageVolDef =
  vol_name :: string
  vol_key :: "string option"
  vol_building :: bool
  vol_in_use :: uint
  vol_capacity :: u64
  vol_allocation :: u64

record virStoragePoolDef =
  def_name :: string
  def_uuid :: uuid
  def_type :: int
  def_capacity :: u64
  def_allocation :: u64
  def_available :: u64

record virStoragePoolObj =
  def :: virStoragePoolDef
  newDef :: "virStoragePoolDef option"
  active :: bool
  asyncjobs :: uint
  configFile :: "string option"
  volumes :: "virStorageVolDef list"

type_synonym virStoragePoolObjList = "virStoragePoolObj list"

text \<open>The public handles \<^verbatim>\<open>virStoragePoolPtr\<close> and \<^verbatim>\<open>virStorageVolPtr\<close>.\<close>

record virStoragePool =
  sp_name :: string
  sp_uuid :: uuid

record virStorageVol =
  sv_pool :: string
  sv_name :: string
  sv_key :: "string option"

text \<open>
  Modelled from the spec: the backend plugin contract of section 6. The table
  \<^verbatim>\<open>virStorageBackend\<close> is declared in \<^verbatim>\<open>storage_backend.h\<close>, which is not among the
  sources. Every slot but \<open>refreshPool\<close> is optional. A slot returns the \<^verbatim>\<open>int\<close> the
  driver tests; \<open>refreshPool\<close> also yields what it "populates" (volume list, capacity,
  allocation, available), \<open>createVol\<close> and \<open>refreshVol\<close> the volume definition they filled in.
\<close>

record refreshed =
  r_volumes :: "virStorageVolDef list"
  r_capacity :: u64
  r_allocation :: u64
  r_available :: u64

record virStorageBackend =
  startPool :: "(virStoragePoolObj \<Rightarrow> int) option"
  stopPool :: "(virStoragePoolObj \<Rightarrow> int) option"
  refreshPool :: "virStoragePoolObj \<Rightarrow> int \<times> refreshed"
  createVol :: "(virStoragePoolObj \<Rightarrow> virStorageVolDef \<Rightarrow> int \<times> virStorageVolDef) option"
  buildVol :: "(virStoragePoolObj \<Rightarrow> virStorageVolDef \<Rightarrow> uint \<Rightarrow> int) option"
  buildVolFrom ::
    "(virStoragePoolObj \<Rightarrow> virStorageVolDef \<Rightarrow> virStorageVolDef \<Rightarrow> uint \<Rightarrow> int) option"
  refreshVol :: "(virStoragePoolObj \<Rightarrow> virStorageVolDef \<Rightarrow> int \<times> virStorageVolDef) option"
  deleteVol :: "(virStoragePoolObj \<Rightarrow> virStorageVolDef \<Rightarrow> uint \<Rightarrow> int) option"
  resizeVol :: "(virStoragePoolObj \<Rightarrow> virStorageVolDef \<Rightarrow> u64 \<Rightarrow> uint \<Rightarrow> int) option"
  wipeVol :: "(virStoragePoolObj \<Rightarrow> virStorageVolDef \<Rightarrow> uint \<Rightarrow> uint \<Rightarrow> int) option"
  uploadVol :: "(virStoragePoolObj \<Rightarrow> virStorageVolDef \<Rightarrow> u64 \<Rightarrow> u64 \<Rightarrow> uint \<Rightarrow> int) option"

text \<open>
  The collaborators every entry point reaches through globals or through \<^verbatim>\<open>conn\<close>: the
  backend registry \<^verbatim>\<open>virStorageBackendForType\<close>, the generated access-control checks
  \<^verbatim>\<open>vir...EnsureACL\<close> (one per API, returning a negative code on denial), the XML parsers,
  the config writer \<^verbatim>\<open>virStoragePoolObjSaveDef\<close> and \<^verbatim>\<open>virStoragePoolObjDeleteDef\<close>, and
  the source comparison behind \<^verbatim>\<open>virStoragePoolSourceFindDuplicate\<close>. None of them is
  defined in the sources, so they are parameters.
\<close>

datatype api =
    PoolCreateXML | PoolDefineXML | PoolUndefine | PoolCreate | PoolDestroy | PoolRefresh
  | PoolLookupByName | PoolLookupByUUID
  | VolDelete | VolCreateXML | VolCreateXMLFrom | VolUpload | VolResize | VolWipePattern

record virConnect =
  virStorageBackendForType :: "int \<Rightarrow> virStorageBackend option"
  ensureACL :: "api \<Rightarrow> int"
  virStoragePoolDefParseString :: "string \<Rightarrow> virStoragePoolDef option"
  virStorageVolDefParseString :: "virStoragePoolDef \<Rightarrow> string \<Rightarrow> virStorageVolDef option"
  virStoragePoolObjSaveDef :: "virStoragePoolObj \<Rightarrow> virStoragePoolDef \<Rightarrow> int \<times> string"
  virStoragePoolObjDeleteDef :: "virStoragePoolObj \<Rightarrow> int"
  sourceMatches :: "virStoragePoolDef \<Rightarrow> virStoragePoolDef \<Rightarrow> bool"

type_synonym 'a result = "(virError + 'a) \<times> virStoragePoolObjList"

section \<open>Flags and constants of the public header\<close>

text \<open>
  The flags and enumerators below belong to the public header \<^verbatim>\<open>libvirt.h\<close>, which is
  not among the sources. The three resize flags are distinct single bits.
\<close>

text \<open>
  Modelled from the spec: \<^verbatim>\<open>VIR_STORAGE_VOL_RESIZE_ALLOCATE\<close> (section 9), the flag that
  makes a resize allocate the new capacity; its declaration is missing.
\<close>

definition VIR_STORAGE_VOL_RESIZE_ALLOCATE :: uint where
  "VIR_STORAGE_VOL_RESIZE_ALLOCATE = 1"

text \<open>
  Modelled from the spec: the flag that makes the capacity argument of a resize relative
  to the current capacity; its declaration is missing.
\<close>

definition VIR_STORAGE_VOL_RESIZE_DELTA :: uint where
  "VIR_STORAGE_VOL_RESIZE_DELTA = 2"

text \<open>
  Modelled from the spec: the "shrink flag" of section 8, without which a resize below
  the current capacity is refused; its declaration is missing.
\<close>

definition VIR_STORAGE_VOL_RESIZE_SHRINK :: uint where
  "VIR_STORAGE_VOL_RESIZE_SHRINK = 4"

text \<open>
  Modelled from the spec: the one flag volume creation accepts; its declaration is
  missing.
\<close>

definition VIR_STORAGE_VOL_CREATE_PREALLOC_METADATA :: uint where
  "VIR_STORAGE_VOL_CREATE_PREALLOC_METADATA = 1"

text \<open>
  Modelled from the spec: the wipe algorithm \<^verbatim>\<open>storageVolWipe\<close> passes ("wipe" as
  opposed to "wipe-pattern" in section 6), the first enumerator; its declaration is
  missing.
\<close>

definition VIR_STORAGE_VOL_WIPE_ALG_ZERO :: uint where
  "VIR_STORAGE_VOL_WIPE_ALG_ZERO = 0"

text \<open>
  Modelled from the spec: the number of wipe algorithms, the bound above every valid
  one; its declaration is missing.
\<close>

definition VIR_STORAGE_VOL_WIPE_ALG_LAST :: uint where
  "VIR_STORAGE_VOL_WIPE_ALG_LAST = 9"

text \<open>
  Modelled from the spec: \<^verbatim>\<open>virCheckFlags\<close> is a macro of \<^verbatim>\<open>internal.h\<close>, not among the
  sources. A call that passes a flag outside the supported set is refused as an invalid
  argument (section 7) before anything else happens. \<open>virCheckFlags\<close> is true when the
  flags are accepted.
\<close>

definition virCheckFlags :: "uint \<Rightarrow> uint \<Rightarrow> bool" where
  "virCheckFlags supported flags = (flags AND NOT supported = 0)"

abbreviation unsupported_flags :: virError where
  "unsupported_flags \<equiv> VirError VIR_ERR_INVALID_ARG ''unsupported flags''"

section \<open>The pool object store\<close>

primrec find_first_index :: "('a \<Rightarrow> bool) \<Rightarrow> 'a list \<Rightarrow> nat option" where
  "find_first_index P [] = None"
| "find_first_index P (x # xs) =
     (if P x then Some 0 else map_option Suc (find_first_index P xs))"

text \<open>
  The operations of the store and of a pool's volume list are functions of
  \<^verbatim>\<open>storage_conf.c\<close>, which is not among the sources.
\<close>

text \<open>
  Modelled from the spec: \<open>findByUUID\<close> of section 4.2; the function
  \<^verbatim>\<open>virStoragePoolObjFindByUUID\<close> is missing. It returns the first pool with the UUID.
\<close>

definition virStoragePoolObjFindByUUID :: "virStoragePoolObjList \<Rightarrow> uuid \<Rightarrow> nat option" where
  "virStoragePoolObjFindByUUID pools u = find_first_index (\<lambda>p. def_uuid (def p) = u) pools"

text \<open>
  Modelled from the spec: \<open>findByName\<close> of section 4.2; the function
  \<^verbatim>\<open>virStoragePoolObjFindByName\<close> is missing. It returns the first pool with the name.
\<close>

definition virStoragePoolObjFindByName :: "virStoragePoolObjList \<Rightarrow> string \<Rightarrow> nat option" where
  "virStoragePoolObjFindByName pools n = find_first_index (\<lambda>p. def_name (def p) = n) pools"

text \<open>
  Modelled from the spec: \<open>remove(Pool)\<close> of section 4.2; the function
  \<^verbatim>\<open>virStoragePoolObjRemove\<close> is missing. It takes the given pool out of the sequence and
  keeps the order of the others.
\<close>

definition virStoragePoolObjRemove :: "virStoragePoolObjList \<Rightarrow> nat \<Rightarrow> virStoragePoolObjList" where
  "virStoragePoolObjRemove pools p = take p pools @ drop (Suc p) pools"

text \<open>
  Modelled from the spec: a volume is identified by its name, unique within its pool
  (section 3); the function \<^verbatim>\<open>virStorageVolDefFindByName\<close> is missing. It returns the
  first volume of the pool with the name.
\<close>

definition virStorageVolDefFindByName :: "virStoragePoolObj \<Rightarrow> string \<Rightarrow> nat option" where
  "virStorageVolDefFindByName pool n = find_first_index (\<lambda>v. vol_name v = n) (volumes pool)"

text \<open>
  Modelled from the spec: "clears current volume list" (section 4.3); the function
  \<^verbatim>\<open>virStoragePoolObjClearVols\<close> is missing.
\<close>

definition virStoragePoolObjClearVols :: "virStoragePoolObj \<Rightarrow> virStoragePoolObj" where
  "virStoragePoolObjClearVols pool = pool\<lparr>volumes := []\<rparr>"

text \<open>
  Modelled from the spec: duplicate detection by identity; the function
  \<^verbatim>\<open>virStoragePoolObjIsDuplicate\<close> is missing. Section 4.2 has name and UUID unique
  across the live set and the insert "check-and-reject duplicates", section 4.3 has define
  "reject duplicates": a definition whose name or UUID is that of a pool in the store is
  refused with a negative code. The spec gives no meaning to the \<^verbatim>\<open>check_active\<close>
  argument, so it is not consulted.
\<close>

definition virStoragePoolObjIsDuplicate ::
  "virStoragePoolObjList \<Rightarrow> virStoragePoolDef \<Rightarrow> bool \<Rightarrow> int" where
  "virStoragePoolObjIsDuplicate pools d check_active =
     (if list_ex (\<lambda>p. def_name (def p) = def_name d \<or> def_uuid (def p) = def_uuid d) pools
      then -1 else 0)"

text \<open>
  Modelled from the spec: duplicate detection "by source-equivalence" (section 4.2: two
  pools must not claim the same adapter or the same directory); the function
  \<^verbatim>\<open>virStoragePoolSourceFindDuplicate\<close> is missing. What makes two sources equivalent is
  the connection's \<open>sourceMatches\<close>.
\<close>

definition virStoragePoolSourceFindDuplicate ::
  "virConnect \<Rightarrow> virStoragePoolObjList \<Rightarrow> virStoragePoolDef \<Rightarrow> int" where
  "virStoragePoolSourceFindDuplicate conn pools d =
     (if list_ex (\<lambda>p. sourceMatches conn (def p) d) pools then -1 else 0)"

text \<open>
  Modelled from the spec: \<open>insert(def)\<close> of section 4.2, "instantiate Pool (inactive)" of
  section 4.3; the function \<^verbatim>\<open>virStoragePoolObjAssignDef\<close> is missing. The new pool goes
  to the end of the sequence: inactive, transient, without volumes or jobs.
\<close>

definition virStoragePoolObjAssignDef ::
  "virStoragePoolObjList \<Rightarrow> virStoragePoolDef \<Rightarrow> virStoragePoolObjList \<times> nat" where
  "virStoragePoolObjAssignDef pools d =
     (pools @ [\<lparr>def = d, newDef = None, active = False, asyncjobs = 0, configFile = None,
                volumes = []\<rparr>],
      length pools)"

abbreviation no_pool_uuid :: virError where
  "no_pool_uuid \<equiv> VirError VIR_ERR_NO_STORAGE_POOL ''no storage pool with matching uuid''"

abbreviation no_pool_name :: virError where
  "no_pool_name \<equiv> VirError VIR_ERR_NO_STORAGE_POOL ''no storage pool with matching name''"

abbreviation pool_not_active :: virError where
  "pool_not_active \<equiv> VirError VIR_ERR_OPERATION_INVALID ''storage pool is not active''"

abbreviation pool_still_active :: virError where
  "pool_still_active \<equiv> VirError VIR_ERR_OPERATION_INVALID ''storage pool is still active''"

abbreviation pool_already_active :: virError where
  "pool_already_active \<equiv> VirError VIR_ERR_OPERATION_INVALID ''storage pool is already active''"

abbreviation pool_async_jobs :: virError where
  "pool_async_jobs \<equiv> VirError VIR_ERR_INTERNAL_ERROR ''pool has asynchronous jobs running.''"

abbreviation vol_still_in_use :: virError where
  "vol_still_in_use \<equiv> VirError VIR_ERR_OPERATION_INVALID ''volume is still in use.''"

abbreviation vol_still_allocating :: virError where
  "vol_still_allocating \<equiv> VirError VIR_ERR_OPERATION_INVALID ''volume is still being allocated.''"

abbreviation no_vol_name :: virError where
  "no_vol_name \<equiv> VirError VIR_ERR_NO_STORAGE_VOL ''no storage vol with matching name''"


section \<open>Volume operations\<close>

text \<open>
  The loop of \<^verbatim>\<open>storageVolDeleteInternal\<close> (lines 1506-1515): scan the array for the
  entry that is the volume \<open>vol\<close>, delete that element and stop.
\<close>

function delete_vol_loop :: "nat \<Rightarrow> nat \<Rightarrow> 'a list \<Rightarrow> 'a list" where
  "delete_vol_loop i vol objs =
     (if i < length objs
      then (if i = vol then take i objs @ drop (Suc i) objs
            else delete_vol_loop (Suc i) vol objs)
      else objs)"
  by pat_completeness auto
termination
  by (relation "measure (\<lambda>(i, vol, objs). length objs - i)") auto

declare delete_vol_loop.simps [simp del]

abbreviation no_vol_deletion :: virError where
  "no_vol_deletion \<equiv> VirError VIR_ERR_NO_SUPPORT ''storage pool does not support vol deletion''"

definition storageVolDeleteInternal ::
  "virStorageBackend \<Rightarrow> virStoragePoolObj \<Rightarrow> nat \<Rightarrow> uint \<Rightarrow> bool
     \<Rightarrow> (virError + unit) \<times> virStoragePoolObj" where
  "storageVolDeleteInternal backend pool vol flags updateMeta =
     (case deleteVol backend of
        None \<Rightarrow> (Inl no_vol_deletion, pool)
      | Some del \<Rightarrow>
          if del pool (volumes pool ! vol) flags < 0 then (Inl (ErrorFrom Backend), pool)
          else
            let pool1 =
                  (if updateMeta
                   then pool\<lparr>def := (def pool)
                          \<lparr>def_allocation :=
                             def_allocation (def pool) - vol_allocation (volumes pool ! vol),
                           def_available :=
                             def_available (def pool) + vol_allocation (volumes pool ! vol)\<rparr>\<rparr>
                   else pool)
            in (Inr (), pool1\<lparr>volumes := delete_vol_loop 0 vol (volumes pool1)\<rparr>))"

text \<open>
  \<^verbatim>\<open>virStorageVolDefFromVol\<close> (lines 1523-1570) resolves a volume handle to its pool, its
  definition and the pool's backend.
\<close>

definition virStorageVolDefFromVol ::
  "virConnect \<Rightarrow> virStoragePoolObjList \<Rightarrow> virStorageVol
     \<Rightarrow> virError + (nat \<times> nat \<times> virStorageBackend)" where
  "virStorageVolDefFromVol conn pools obj =
     (case virStoragePoolObjFindByName pools (sv_pool obj) of
        None \<Rightarrow> Inl no_pool_name
      | Some p \<Rightarrow>
          if \<not> active (pools ! p) then Inl pool_not_active
          else
            (case virStorageVolDefFindByName (pools ! p) (sv_name obj) of
               None \<Rightarrow> Inl no_vol_name
             | Some v \<Rightarrow>
                 (case virStorageBackendForType conn (def_type (def (pools ! p))) of
                    None \<Rightarrow> Inl (ErrorFrom BackendRegistry)
                  | Some backend \<Rightarrow> Inr (p, v, backend))))"

definition storageVolDelete ::
  "virConnect \<Rightarrow> virStoragePoolObjList \<Rightarrow> virStorageVol \<Rightarrow> uint \<Rightarrow> unit result" where
  "storageVolDelete conn pools obj flags =
     (case virStorageVolDefFromVol conn pools obj of
        Inl e \<Rightarrow> (Inl e, pools)
      | Inr (p, v, backend) \<Rightarrow>
          if ensureACL conn VolDelete < 0 then (Inl (ErrorFrom AccessControl), pools)
          else if vol_in_use (volumes (pools ! p) ! v) \<noteq> 0 then (Inl vol_still_in_use, pools)
          else if vol_building (volumes (pools ! p) ! v) then (Inl vol_still_allocating, pools)
          else
            (case storageVolDeleteInternal backend (pools ! p) v flags True of
               (Inl e, pool') \<Rightarrow> (Inl e, pools[p := pool'])
             | (Inr u, pool') \<Rightarrow> (Inr (), pools[p := pool'])))"

abbreviation no_vol_upload :: virError where
  "no_vol_upload \<equiv> VirError VIR_ERR_NO_SUPPORT ''storage pool doesn't support volume upload''"

definition storageVolUpload ::
  "virConnect \<Rightarrow> virStoragePoolObjList \<Rightarrow> virStorageVol \<Rightarrow> u64 \<Rightarrow> u64 \<Rightarrow> uint \<Rightarrow> unit result" where
  "storageVolUpload conn pools obj offset len flags =
     (if \<not> virCheckFlags 0 flags then (Inl unsupported_flags, pools)
      else
        (case virStorageVolDefFromVol conn pools obj of
           Inl e \<Rightarrow> (Inl e, pools)
         | Inr (p, v, backend) \<Rightarrow>
             if ensureACL conn VolUpload < 0 then (Inl (ErrorFrom AccessControl), pools)
             else if vol_in_use (volumes (pools ! p) ! v) \<noteq> 0 then (Inl vol_still_in_use, pools)
             else if vol_building (volumes (pools ! p) ! v) then (Inl vol_still_allocating, pools)
             else
               (case uploadVol backend of
                  None \<Rightarrow> (Inl no_vol_upload, pools)
                | Some up \<Rightarrow>
                    if up (pools ! p) (volumes (pools ! p) ! v) offset len flags < 0
                    then (Inl (ErrorFrom Backend), pools)
                    else (Inr (), pools))))"

abbreviation no_shrink_below_allocation :: virError where
  "no_shrink_below_allocation \<equiv>
     VirError VIR_ERR_INVALID_ARG ''can't shrink capacity below existing allocation''"

abbreviation no_shrink_without_flag :: virError where
  "no_shrink_without_flag \<equiv>
     VirError VIR_ERR_INVALID_ARG
       ''Can't shrink capacity below current capacity with shrink flag explicitly specified''"

abbreviation not_enough_space :: virError where
  "not_enough_space \<equiv> VirError VIR_ERR_OPERATION_FAILED ''Not enough space left on storage pool''"

abbreviation no_vol_resize :: virError where
  "no_vol_resize \<equiv>
     VirError VIR_ERR_NO_SUPPORT ''storage pool does not support changing of volume capacity''"

text \<open>
  \<^verbatim>\<open>storageVolResize\<close> (lines 2008-2095). The assignments follow the source's order: the
  volume's capacity is overwritten with \<open>abs_capacity\<close> (line 2081) before the pool's
  counters are adjusted by \<open>abs_capacity - vol->target.capacity\<close> (lines 2086-2087).
\<close>

definition storageVolResize ::
  "virConnect \<Rightarrow> virStoragePoolObjList \<Rightarrow> virStorageVol \<Rightarrow> u64 \<Rightarrow> uint \<Rightarrow> unit result" where
  "storageVolResize conn pools obj capacity flags =
     (if \<not> virCheckFlags (VIR_STORAGE_VOL_RESIZE_ALLOCATE OR VIR_STORAGE_VOL_RESIZE_DELTA
                             OR VIR_STORAGE_VOL_RESIZE_SHRINK) flags
      then (Inl unsupported_flags, pools)
      else
        (case virStorageVolDefFromVol conn pools obj of
           Inl e \<Rightarrow> (Inl e, pools)
         | Inr (p, v, backend) \<Rightarrow>
             let pool = pools ! p; vol = volumes pool ! v in
             if ensureACL conn VolResize < 0 then (Inl (ErrorFrom AccessControl), pools)
             else if vol_in_use vol \<noteq> 0 then (Inl vol_still_in_use, pools)
             else if vol_building vol then (Inl vol_still_allocating, pools)
             else
               let abs_capacity =
                     (if flags AND VIR_STORAGE_VOL_RESIZE_DELTA \<noteq> 0
                      then vol_capacity vol + capacity else capacity);
                   flags1 =
                     (if flags AND VIR_STORAGE_VOL_RESIZE_DELTA \<noteq> 0
                      then flags AND NOT VIR_STORAGE_VOL_RESIZE_DELTA else flags)
               in
               if abs_capacity < vol_allocation vol then (Inl no_shrink_below_allocation, pools)
               else if abs_capacity < vol_capacity vol
                       \<and> flags1 AND VIR_STORAGE_VOL_RESIZE_SHRINK = 0
               then (Inl no_shrink_without_flag, pools)
               else if abs_capacity > vol_capacity vol + def_available (def pool)
               then (Inl not_enough_space, pools)
               else
                 (case resizeVol backend of
                    None \<Rightarrow> (Inl no_vol_resize, pools)
                  | Some rs \<Rightarrow>
                      if rs pool vol abs_capacity flags1 < 0 then (Inl (ErrorFrom Backend), pools)
                      else
                        let vol1 = vol\<lparr>vol_capacity := abs_capacity\<rparr>;
                            vol2 = (if flags1 AND VIR_STORAGE_VOL_RESIZE_ALLOCATE \<noteq> 0
                                    then vol1\<lparr>vol_allocation := abs_capacity\<rparr> else vol1);
                            d1 = (def pool)\<lparr>def_allocation :=
                                    def_allocation (def pool) + (abs_capacity - vol_capacity vol2)\<rparr>;
                            d2 = d1\<lparr>def_available :=
                                    def_available d1 - (abs_capacity - vol_capacity vol2)\<rparr>
                        in (Inr (),
                            pools[p := pool\<lparr>def := d2,
                                             volumes := (volumes pool)[v := vol2]\<rparr>]))))"

abbreviation wipe_alg_unsupported :: virError where
  "wipe_alg_unsupported \<equiv> VirError VIR_ERR_INVALID_ARG ''wiping algorithm not supported''"

abbreviation no_vol_wipe :: virError where
  "no_vol_wipe \<equiv> VirError VIR_ERR_NO_SUPPORT ''storage pool doesn't support volume wiping''"

definition storageVolWipePattern ::
  "virConnect \<Rightarrow> virStoragePoolObjList \<Rightarrow> virStorageVol \<Rightarrow> uint \<Rightarrow> uint \<Rightarrow> unit result" where
  "storageVolWipePattern conn pools obj algorithm flags =
     (if \<not> virCheckFlags 0 flags then (Inl unsupported_flags, pools)
      else if algorithm \<ge> VIR_STORAGE_VOL_WIPE_ALG_LAST then (Inl wipe_alg_unsupported, pools)
      else
        (case virStorageVolDefFromVol conn pools obj of
           Inl e \<Rightarrow> (Inl e, pools)
         | Inr (p, v, backend) \<Rightarrow>
             if ensureACL conn VolWipePattern < 0 then (Inl (ErrorFrom AccessControl), pools)
             else if vol_in_use (volumes (pools ! p) ! v) \<noteq> 0 then (Inl vol_still_in_use, pools)
             else if vol_building (volumes (pools ! p) ! v) then (Inl vol_still_allocating, pools)
             else
               (case wipeVol backend of
                  None \<Rightarrow> (Inl no_vol_wipe, pools)
                | Some wp \<Rightarrow>
                    if wp (pools ! p) (volumes (pools ! p) ! v) algorithm flags < 0
                    then (Inl (ErrorFrom Backend), pools)
                    else (Inr (), pools))))"

definition storageVolWipe ::
  "virConnect \<Rightarrow> virStoragePoolObjList \<Rightarrow> virStorageVol \<Rightarrow> uint \<Rightarrow> unit result" where
  "storageVolWipe conn pools obj flags =
     storageVolWipePattern conn pools obj VIR_STORAGE_VOL_WIPE_ALG_ZERO flags"


text \<open>Writes through a pool pointer and through a volume pointer.\<close>

definition upd_pool ::
  "virStoragePoolObjList \<Rightarrow> nat \<Rightarrow> (virStoragePoolObj \<Rightarrow> virStoragePoolObj)
     \<Rightarrow> virStoragePoolObjList" where
  "upd_pool pools p f = pools[p := f (pools ! p)]"

definition upd_vol ::
  "virStoragePoolObjList \<Rightarrow> nat \<Rightarrow> nat \<Rightarrow> (virStorageVolDef \<Rightarrow> virStorageVolDef)
     \<Rightarrow> virStoragePoolObjList" where
  "upd_vol pools p v f =
     upd_pool pools p (\<lambda>pool. pool\<lparr>volumes := (volumes pool)[v := f (volumes pool ! v)]\<rparr>)"

definition virGetStorageVol :: "virStoragePoolObj \<Rightarrow> virStorageVolDef \<Rightarrow> virStorageVol" where
  "virGetStorageVol pool vol =
     \<lparr>sv_pool = def_name (def pool), sv_name = vol_name vol, sv_key = vol_key vol\<rparr>"

definition virGetStoragePool :: "virStoragePoolObj \<Rightarrow> virStoragePool" where
  "virGetStoragePool pool = \<lparr>sp_name = def_name (def pool), sp_uuid = def_uuid (def pool)\<rparr>"

abbreviation vol_exists :: virError where
  "vol_exists \<equiv> VirError VIR_ERR_STORAGE_VOL_EXIST ''volume name exists''"

abbreviation no_vol_creation :: virError where
  "no_vol_creation \<equiv>
     VirError VIR_ERR_NO_SUPPORT ''storage pool does not support volume creation''"

text \<open>
  The state \<^verbatim>\<open>buildVol\<close> runs in (lines 1693-1695): one more asynchronous job on the pool,
  the new volume marked as building; and the state after it returned (lines 1703-1704).
\<close>

definition begin_build :: "virStoragePoolObj \<Rightarrow> nat \<Rightarrow> virStoragePoolObj" where
  "begin_build pool v =
     pool\<lparr>asyncjobs := asyncjobs pool + 1,
          volumes := (volumes pool)[v := (volumes pool ! v)\<lparr>vol_building := True\<rparr>]\<rparr>"

definition end_build :: "virStoragePoolObj \<Rightarrow> nat \<Rightarrow> virStoragePoolObj" where
  "end_build pool v =
     pool\<lparr>volumes := (volumes pool)[v := (volumes pool ! v)\<lparr>vol_building := False\<rparr>],
          asyncjobs := asyncjobs pool - 1\<rparr>"

text \<open>
  \<^verbatim>\<open>storageVolCreateXML\<close> (lines 1613-1733). When the build fails, the error left behind
  is the last one reported: that of \<^verbatim>\<open>storageVolDeleteInternal\<close> if the rollback failed
  too, otherwise the backend's.
\<close>

definition storageVolCreateXML ::
  "virConnect \<Rightarrow> virStoragePoolObjList \<Rightarrow> virStoragePool \<Rightarrow> string \<Rightarrow> uint
     \<Rightarrow> virStorageVol result" where
  "storageVolCreateXML conn pools obj xmldesc flags =
     (if \<not> virCheckFlags VIR_STORAGE_VOL_CREATE_PREALLOC_METADATA flags
      then (Inl unsupported_flags, pools)
      else
        (case virStoragePoolObjFindByUUID pools (sp_uuid obj) of
           None \<Rightarrow> (Inl no_pool_uuid, pools)
         | Some p \<Rightarrow>
             let pool = pools ! p in
             if \<not> active pool then (Inl pool_not_active, pools)
             else
               (case virStorageBackendForType conn (def_type (def pool)) of
                  None \<Rightarrow> (Inl (ErrorFrom BackendRegistry), pools)
                | Some backend \<Rightarrow>
                    (case virStorageVolDefParseString conn (def pool) xmldesc of
                       None \<Rightarrow> (Inl (ErrorFrom Parser), pools)
                     | Some voldef \<Rightarrow>
                         if ensureACL conn VolCreateXML < 0
                         then (Inl (ErrorFrom AccessControl), pools)
                         else if virStorageVolDefFindByName pool (vol_name voldef) \<noteq> None
                         then (Inl vol_exists, pools)
                         else
                           (case createVol backend of
                              None \<Rightarrow> (Inl no_vol_creation, pools)
                            | Some cv \<Rightarrow>
                                (case cv pool (voldef\<lparr>vol_key := None\<rparr>) of
                                   (r, voldef1) \<Rightarrow>
                                     if r < 0 then (Inl (ErrorFrom Backend), pools)
                                     else
                                       let v = length (volumes pool);
                                           pool1 = pool\<lparr>volumes := volumes pool @ [voldef1]\<rparr>;
                                           volobj = virGetStorageVol pool1 voldef1;
                                           buildvoldef = voldef1
                                       in
                                       (case buildVol backend of
                                          None \<Rightarrow>
                                            (Inr volobj,
                                             pools[p := pool1\<lparr>def := (def pool1)
                                               \<lparr>def_allocation := def_allocation (def pool1)
                                                    + vol_allocation buildvoldef,
                                                def_available := def_available (def pool1)
                                                    - vol_allocation buildvoldef\<rparr>\<rparr>])
                                        | Some bv \<Rightarrow>
                                            let pool2 = begin_build pool1 v;
                                                buildret = bv pool2 buildvoldef flags;
                                                pool3 = end_build pool2 v
                                            in
                                            if buildret < 0
                                            then
                                              (case storageVolDeleteInternal backend pool3 v 0 False of
                                                 (Inl e, pool4) \<Rightarrow> (Inl e, pools[p := pool4])
                                               | (Inr u, pool4) \<Rightarrow>
                                                   (Inl (ErrorFrom Backend), pools[p := pool4]))
                                            else
                                              (Inr volobj,
                                               pools[p := pool3\<lparr>def := (def pool3)
                                                 \<lparr>def_allocation := def_allocation (def pool3)
                                                      + vol_allocation buildvoldef,
                                                  def_available := def_available (def pool3)
                                                      - vol_allocation buildvoldef\<rparr>\<rparr>]))))))))"

abbreviation vol_name_in_use :: virError where
  "vol_name_in_use \<equiv> VirError VIR_ERR_INTERNAL_ERROR ''storage volume name already in use.''"

abbreviation no_vol_clone :: virError where
  "no_vol_clone \<equiv>
     VirError VIR_ERR_NO_SUPPORT
       ''storage pool does not support volume creation from an existing volume''"

text \<open>
  \<^verbatim>\<open>storageVolCreateXMLFrom\<close> (lines 1735-1913) is given in two parts. The second part,
  \<open>storageVolCreateXMLFrom_build\<close>, is the body from line 1822 on: everything that happens
  once the sizes of the new volume have been settled. \<open>opl\<close> is the pool that holds the
  original volume (\<^verbatim>\<open>origpool ? origpool : pool\<close>), \<open>ov\<close> the original volume in it.

  A result \<open>None\<close> means that the call does not return: line 1847 calls
  \<^verbatim>\<open>backend->createVol\<close> without testing the slot, and lines 1754-1756 lock \<^verbatim>\<open>pool\<close>
  again after the lookup by name has returned that same pool locked.
\<close>

definition storageVolCreateXMLFrom_build ::
  "virStorageBackend \<Rightarrow> virStoragePoolObjList \<Rightarrow> nat \<Rightarrow> nat option \<Rightarrow> nat \<Rightarrow> nat
     \<Rightarrow> virStorageVolDef \<Rightarrow> uint \<Rightarrow> virStorageVol result option" where
  "storageVolCreateXMLFrom_build backend pools p origpool opl ov newvol flags =
     (case buildVolFrom backend of
        None \<Rightarrow> Some (Inl no_vol_clone, pools)
      | Some bvf \<Rightarrow>
          if vol_building (volumes (pools ! opl) ! ov) then Some (Inl vol_still_allocating, pools)
          else
            let (rr, pools1) =
                  (case refreshVol backend of
                     None \<Rightarrow> (0, pools)
                   | Some rv \<Rightarrow>
                       (case rv (pools ! p) (volumes (pools ! opl) ! ov) of
                          (r, origvol1) \<Rightarrow> (r, upd_vol pools opl ov (\<lambda>_. origvol1))))
            in
            if rr < 0 then Some (Inl (ErrorFrom Backend), pools1)
            else
              (case createVol backend of
                 None \<Rightarrow> None
               | Some cv \<Rightarrow>
                   (case cv (pools1 ! p) (newvol\<lparr>vol_key := None\<rparr>) of
                      (r, newvol1) \<Rightarrow>
                        if r < 0 then Some (Inl (ErrorFrom Backend), pools1)
                        else
                          let v = length (volumes (pools1 ! p));
                              pools2 = upd_pool pools1 p
                                         (\<lambda>pl. pl\<lparr>volumes := volumes pl @ [newvol1]\<rparr>);
                              volobj = virGetStorageVol (pools2 ! p) newvol1;
                              pools3 = upd_pool pools2 p (\<lambda>pl. pl\<lparr>asyncjobs := asyncjobs pl + 1\<rparr>);
                              pools4 = upd_vol pools3 p v (\<lambda>vl. vl\<lparr>vol_building := True\<rparr>);
                              pools5 = upd_vol pools4 opl ov
                                         (\<lambda>vl. vl\<lparr>vol_in_use := vol_in_use vl + 1\<rparr>);
                              pools6 = (case origpool of
                                          None \<Rightarrow> pools5
                                        | Some q \<Rightarrow>
                                            upd_pool pools5 q
                                              (\<lambda>pl. pl\<lparr>asyncjobs := asyncjobs pl + 1\<rparr>));
                              buildret = bvf (pools6 ! p) (volumes (pools6 ! p) ! v)
                                           (volumes (pools6 ! opl) ! ov) flags;
                              pools7 = upd_vol pools6 opl ov
                                         (\<lambda>vl. vl\<lparr>vol_in_use := vol_in_use vl - 1\<rparr>);
                              pools8 = upd_vol pools7 p v (\<lambda>vl. vl\<lparr>vol_building := False\<rparr>);
                              allocation = vol_allocation (volumes (pools8 ! p) ! v);
                              pools9 = upd_pool pools8 p (\<lambda>pl. pl\<lparr>asyncjobs := asyncjobs pl - 1\<rparr>);
                              pools10 = (case origpool of
                                           None \<Rightarrow> pools9
                                         | Some q \<Rightarrow>
                                             upd_pool pools9 q
                                               (\<lambda>pl. pl\<lparr>asyncjobs := asyncjobs pl - 1\<rparr>))
                          in
                          if buildret < 0
                          then
                            (case storageVolDeleteInternal backend (pools10 ! p) v 0 False of
                               (Inl e, pool') \<Rightarrow> Some (Inl e, pools10[p := pool'])
                             | (Inr u, pool') \<Rightarrow> Some (Inl (ErrorFrom Backend), pools10[p := pool']))
                          else
                            Some (Inr volobj,
                                  upd_pool pools10 p
                                    (\<lambda>pl. pl\<lparr>def := (def pl)
                                       \<lparr>def_allocation := def_allocation (def pl) + allocation,
                                        def_available := def_available (def pl) - allocation\<rparr>\<rparr>)))))"

definition storageVolCreateXMLFrom ::
  "virConnect \<Rightarrow> virStoragePoolObjList \<Rightarrow> virStoragePool \<Rightarrow> string \<Rightarrow> virStorageVol \<Rightarrow> uint
     \<Rightarrow> virStorageVol result option" where
  "storageVolCreateXMLFrom conn pools obj xmldesc vobj flags =
     (if \<not> virCheckFlags VIR_STORAGE_VOL_CREATE_PREALLOC_METADATA flags
      then Some (Inl unsupported_flags, pools)
      else
        (case virStoragePoolObjFindByUUID pools (sp_uuid obj) of
           None \<Rightarrow> Some (Inl no_pool_uuid, pools)
         | Some p \<Rightarrow>
             let origpool =
                   (if sp_name obj \<noteq> sv_pool vobj
                    then virStoragePoolObjFindByName pools (sv_pool vobj) else None)
             in
             if origpool = Some p then None
             else if sp_name obj \<noteq> sv_pool vobj \<and> origpool = None then Some (Inl no_pool_name, pools)
             else if \<not> active (pools ! p) then Some (Inl pool_not_active, pools)
             else if (case origpool of None \<Rightarrow> False | Some q \<Rightarrow> \<not> active (pools ! q))
             then Some (Inl pool_not_active, pools)
             else
               (case virStorageBackendForType conn (def_type (def (pools ! p))) of
                  None \<Rightarrow> Some (Inl (ErrorFrom BackendRegistry), pools)
                | Some backend \<Rightarrow>
                    let opl = (case origpool of None \<Rightarrow> p | Some q \<Rightarrow> q) in
                    (case virStorageVolDefFindByName (pools ! opl) (sv_name vobj) of
                       None \<Rightarrow> Some (Inl no_vol_name, pools)
                     | Some ov \<Rightarrow>
                         (case virStorageVolDefParseString conn (def (pools ! p)) xmldesc of
                            None \<Rightarrow> Some (Inl (ErrorFrom Parser), pools)
                          | Some newvol \<Rightarrow>
                              if ensureACL conn VolCreateXMLFrom < 0
                              then Some (Inl (ErrorFrom AccessControl), pools)
                              else if virStorageVolDefFindByName (pools ! p) (vol_name newvol) \<noteq> None
                              then Some (Inl vol_name_in_use, pools)
                              else
                                let origvol = volumes (pools ! opl) ! ov;
                                    newvol1 =
                                      (if vol_capacity newvol < vol_capacity origvol
                                       then newvol\<lparr>vol_capacity := vol_capacity origvol\<rparr>
                                       else newvol);
                                    newvol2 =
                                      (if vol_allocation newvol1 < vol_capacity origvol
                                       then newvol1\<lparr>vol_allocation := vol_capacity origvol\<rparr>
                                       else newvol1)
                                in storageVolCreateXMLFrom_build backend pools p origpool opl ov
                                     newvol2 flags)))))"


section \<open>Pool operations\<close>

definition apply_refreshed :: "virStoragePoolObj \<Rightarrow> refreshed \<Rightarrow> virStoragePoolObj" where
  "apply_refreshed pool rf =
     pool\<lparr>def := (def pool)\<lparr>def_capacity := r_capacity rf,
                              def_allocation := r_allocation rf,
                              def_available := r_available rf\<rparr>,
          volumes := r_volumes rf\<rparr>"

definition storagePoolLookupByName ::
  "virConnect \<Rightarrow> virStoragePoolObjList \<Rightarrow> string \<Rightarrow> virError + virStoragePool" where
  "storagePoolLookupByName conn pools n =
     (case virStoragePoolObjFindByName pools n of
        None \<Rightarrow> Inl no_pool_name
      | Some p \<Rightarrow>
          if ensureACL conn PoolLookupByName < 0 then Inl (ErrorFrom AccessControl)
          else Inr (virGetStoragePool (pools ! p)))"

definition storagePoolLookupByUUID ::
  "virConnect \<Rightarrow> virStoragePoolObjList \<Rightarrow> uuid \<Rightarrow> virError + virStoragePool" where
  "storagePoolLookupByUUID conn pools u =
     (case virStoragePoolObjFindByUUID pools u of
        None \<Rightarrow> Inl no_pool_uuid
      | Some p \<Rightarrow>
          if ensureACL conn PoolLookupByUUID < 0 then Inl (ErrorFrom AccessControl)
          else Inr (virGetStoragePool (pools ! p)))"

text \<open>
  \<^verbatim>\<open>storagePoolCreateXML\<close> (lines 594-653). The result of \<^verbatim>\<open>stopPool\<close> after a failed
  refresh is not looked at.
\<close>

definition storagePoolCreateXML ::
  "virConnect \<Rightarrow> virStoragePoolObjList \<Rightarrow> string \<Rightarrow> uint \<Rightarrow> virStoragePool result" where
  "storagePoolCreateXML conn pools xml flags =
     (if \<not> virCheckFlags 0 flags then (Inl unsupported_flags, pools)
      else
        (case virStoragePoolDefParseString conn xml of
           None \<Rightarrow> (Inl (ErrorFrom Parser), pools)
         | Some d \<Rightarrow>
             if ensureACL conn PoolCreateXML < 0 then (Inl (ErrorFrom AccessControl), pools)
             else if virStoragePoolObjIsDuplicate pools d True < 0
             then (Inl (ErrorFrom PoolStore), pools)
             else if virStoragePoolSourceFindDuplicate conn pools d < 0
             then (Inl (ErrorFrom PoolStore), pools)
             else
               (case virStorageBackendForType conn (def_type d) of
                  None \<Rightarrow> (Inl (ErrorFrom BackendRegistry), pools)
                | Some backend \<Rightarrow>
                    (case virStoragePoolObjAssignDef pools d of
                       (pools1, p) \<Rightarrow>
                         if (case startPool backend of
                               None \<Rightarrow> False
                             | Some start \<Rightarrow> start (pools1 ! p) < 0)
                         then (Inl (ErrorFrom Backend), virStoragePoolObjRemove pools1 p)
                         else
                           (case refreshPool backend (pools1 ! p) of
                              (r, rf) \<Rightarrow>
                                if r < 0
                                then (Inl (ErrorFrom Backend), virStoragePoolObjRemove pools1 p)
                                else
                                  (Inr (virGetStoragePool (pools1 ! p)),
                                   pools1[p := (apply_refreshed (pools1 ! p) rf)
                                                 \<lparr>active := True\<rparr>]))))))"

text \<open>
  \<^verbatim>\<open>storagePoolDefineXML\<close> (lines 655-703). Saving the definition is what makes the
  pool persistent: on success the pool carries the path of its config file (section 3:
  "a persisted config-file path (absent if transient)").
\<close>

definition storagePoolDefineXML ::
  "virConnect \<Rightarrow> virStoragePoolObjList \<Rightarrow> string \<Rightarrow> uint \<Rightarrow> virStoragePool result" where
  "storagePoolDefineXML conn pools xml flags =
     (if \<not> virCheckFlags 0 flags then (Inl unsupported_flags, pools)
      else
        (case virStoragePoolDefParseString conn xml of
           None \<Rightarrow> (Inl (ErrorFrom Parser), pools)
         | Some d \<Rightarrow>
             if ensureACL conn PoolDefineXML < 0 then (Inl (ErrorFrom AccessControl), pools)
             else if virStoragePoolObjIsDuplicate pools d False < 0
             then (Inl (ErrorFrom PoolStore), pools)
             else if virStoragePoolSourceFindDuplicate conn pools d < 0
             then (Inl (ErrorFrom PoolStore), pools)
             else if virStorageBackendForType conn (def_type d) = None
             then (Inl (ErrorFrom BackendRegistry), pools)
             else
               (case virStoragePoolObjAssignDef pools d of
                  (pools1, p) \<Rightarrow>
                    (case virStoragePoolObjSaveDef conn (pools1 ! p) d of
                       (r, path) \<Rightarrow>
                         if r < 0
                         then (Inl (ErrorFrom Persistence), virStoragePoolObjRemove pools1 p)
                         else
                           (Inr (virGetStoragePool (pools1 ! p)),
                            pools1[p := (pools1 ! p)\<lparr>configFile := Some path\<rparr>])))))"

text \<open>\<^verbatim>\<open>storagePoolUndefine\<close> (lines 705-761).\<close>

definition storagePoolUndefine ::
  "virConnect \<Rightarrow> virStoragePoolObjList \<Rightarrow> virStoragePool \<Rightarrow> unit result" where
  "storagePoolUndefine conn pools obj =
     (case virStoragePoolObjFindByUUID pools (sp_uuid obj) of
        None \<Rightarrow> (Inl no_pool_uuid, pools)
      | Some p \<Rightarrow>
          if ensureACL conn PoolUndefine < 0 then (Inl (ErrorFrom AccessControl), pools)
          else if active (pools ! p) then (Inl pool_still_active, pools)
          else if asyncjobs (pools ! p) > 0 then (Inl pool_async_jobs, pools)
          else if virStoragePoolObjDeleteDef conn (pools ! p) < 0
          then (Inl (ErrorFrom Persistence), pools)
          else (Inr (), virStoragePoolObjRemove pools p))"

text \<open>
  \<^verbatim>\<open>storagePoolCreate\<close> (lines 763-805), the start of a pool that is already defined. A
  failed refresh leaves behind whatever the backend wrote into the pool.
\<close>

definition storagePoolCreate ::
  "virConnect \<Rightarrow> virStoragePoolObjList \<Rightarrow> virStoragePool \<Rightarrow> uint \<Rightarrow> unit result" where
  "storagePoolCreate conn pools obj flags =
     (if \<not> virCheckFlags 0 flags then (Inl unsupported_flags, pools)
      else
        (case virStoragePoolObjFindByUUID pools (sp_uuid obj) of
           None \<Rightarrow> (Inl no_pool_uuid, pools)
         | Some p \<Rightarrow>
             if ensureACL conn PoolCreate < 0 then (Inl (ErrorFrom AccessControl), pools)
             else
               (case virStorageBackendForType conn (def_type (def (pools ! p))) of
                  None \<Rightarrow> (Inl (ErrorFrom BackendRegistry), pools)
                | Some backend \<Rightarrow>
                    if active (pools ! p) then (Inl pool_already_active, pools)
                    else if (case startPool backend of
                               None \<Rightarrow> False
                             | Some start \<Rightarrow> start (pools ! p) < 0)
                    then (Inl (ErrorFrom Backend), pools)
                    else
                      (case refreshPool backend (pools ! p) of
                         (r, rf) \<Rightarrow>
                           if r < 0
                           then (Inl (ErrorFrom Backend),
                                 pools[p := apply_refreshed (pools ! p) rf])
                           else
                             (Inr (),
                              pools[p := (apply_refreshed (pools ! p) rf)\<lparr>active := True\<rparr>])))))"

text \<open>\<^verbatim>\<open>storagePoolDestroy\<close> (lines 842-903).\<close>

definition storagePoolDestroy ::
  "virConnect \<Rightarrow> virStoragePoolObjList \<Rightarrow> virStoragePool \<Rightarrow> unit result" where
  "storagePoolDestroy conn pools obj =
     (case virStoragePoolObjFindByUUID pools (sp_uuid obj) of
        None \<Rightarrow> (Inl no_pool_uuid, pools)
      | Some p \<Rightarrow>
          if ensureACL conn PoolDestroy < 0 then (Inl (ErrorFrom AccessControl), pools)
          else
            (case virStorageBackendForType conn (def_type (def (pools ! p))) of
               None \<Rightarrow> (Inl (ErrorFrom BackendRegistry), pools)
             | Some backend \<Rightarrow>
                 if \<not> active (pools ! p) then (Inl pool_not_active, pools)
                 else if asyncjobs (pools ! p) > 0 then (Inl pool_async_jobs, pools)
                 else if (case stopPool backend of
                            None \<Rightarrow> False
                          | Some stop \<Rightarrow> stop (pools ! p) < 0)
                 then (Inl (ErrorFrom Backend), pools)
                 else
                   let pool1 = (virStoragePoolObjClearVols (pools ! p))\<lparr>active := False\<rparr> in
                   if configFile pool1 = None
                   then (Inr (), virStoragePoolObjRemove (pools[p := pool1]) p)
                   else
                     (case newDef pool1 of
                        None \<Rightarrow> (Inr (), pools[p := pool1])
                      | Some nd \<Rightarrow> (Inr (), pools[p := pool1\<lparr>def := nd, newDef := None\<rparr>]))))"

text \<open>
  \<^verbatim>\<open>storagePoolRefresh\<close> (lines 952-1012). The result of \<^verbatim>\<open>stopPool\<close> on the failure
  path is not looked at.
\<close>

definition storagePoolRefresh ::
  "virConnect \<Rightarrow> virStoragePoolObjList \<Rightarrow> virStoragePool \<Rightarrow> uint \<Rightarrow> unit result" where
  "storagePoolRefresh conn pools obj flags =
     (if \<not> virCheckFlags 0 flags then (Inl unsupported_flags, pools)
      else
        (case virStoragePoolObjFindByUUID pools (sp_uuid obj) of
           None \<Rightarrow> (Inl no_pool_uuid, pools)
         | Some p \<Rightarrow>
             if ensureACL conn PoolRefresh < 0 then (Inl (ErrorFrom AccessControl), pools)
             else
               (case virStorageBackendForType conn (def_type (def (pools ! p))) of
                  None \<Rightarrow> (Inl (ErrorFrom BackendRegistry), pools)
                | Some backend \<Rightarrow>
                    if \<not> active (pools ! p) then (Inl pool_not_active, pools)
                    else if asyncjobs (pools ! p) > 0 then (Inl pool_async_jobs, pools)
                    else
                      (case refreshPool backend (virStoragePoolObjClearVols (pools ! p)) of
                         (r, rf) \<Rightarrow>
                           let pool1 = apply_refreshed (virStoragePoolObjClearVols (pools ! p)) rf in
                           if r < 0
                           then
                             let pool2 = pool1\<lparr>active := False\<rparr> in
                             if configFile pool2 = None
                             then (Inl (ErrorFrom Backend),
                                   virStoragePoolObjRemove (pools[p := pool2]) p)
                             else (Inl (ErrorFrom Backend), pools[p := pool2])
                           else (Inr (), pools[p := pool1])))))"

text \<open>
  A sequence of lifecycle calls, for stating what holds of the store after any number of
  them. The value each call returns is dropped; only the store is passed on.
\<close>

datatype pool_op =
    DefineXML string uint
  | CreateXML string uint
  | Create virStoragePool uint
  | Destroy virStoragePool
  | Undefine virStoragePool
  | Refresh virStoragePool uint

fun pool_step :: "virConnect \<Rightarrow> virStoragePoolObjList \<Rightarrow> pool_op \<Rightarrow> virStoragePoolObjList" where
  "pool_step conn pools (DefineXML xml flags) = snd (storagePoolDefineXML conn pools xml flags)"
| "pool_step conn pools (CreateXML xml flags) = snd (storagePoolCreateXML conn pools xml flags)"
| "pool_step conn pools (Create obj flags) = snd (storagePoolCreate conn pools obj flags)"
| "pool_step conn pools (Destroy obj) = snd (storagePoolDestroy conn pools obj)"
| "pool_step conn pools (Undefine obj) = snd (storagePoolUndefine conn pools obj)"
| "pool_step conn pools (Refresh obj flags) = snd (storagePoolRefresh conn pools obj flags)"

definition pool_run :: "virConnect \<Rightarrow> virStoragePoolObjList \<Rightarrow> pool_op list \<Rightarrow> virStoragePoolObjList" where
  "pool_run conn pools ops = foldl (pool_step conn) pools ops"

text \<open>
  The store is well formed when no two pools share a name or a UUID. A pending new
  definition, which \<^verbatim>\<open>storagePoolDestroy\<close> promotes to the current one, then has to carry
  the identity of the pool it is pending on.
\<close>

definition same_identity :: "virStoragePoolObj \<Rightarrow> bool" where
  "same_identity pool =
     (case newDef pool of
        None \<Rightarrow> True
      | Some nd \<Rightarrow> def_name nd = def_name (def pool) \<and> def_uuid nd = def_uuid (def pool))"

definition unique_pools :: "virStoragePoolObjList \<Rightarrow> bool" where
  "unique_pools pools =
     (distinct (map (\<lambda>p. def_name (def p)) pools) \<and> distinct (map (\<lambda>p. def_uuid (def p)) pools))"

definition store_ok :: "virStoragePoolObjList \<Rightarrow> bool" where
  "store_ok pools = (unique_pools pools \<and> list_all same_identity pools)"


section \<open>Backing chain resolver\<close>

text \<open>
  A storage source with the fields the resolver reads and writes. \<^verbatim>\<open>src->drv\<close>, the handle
  of the initialised file backend, is kept beside the source rather than in it; a source
  enters the resolver uninitialised.
\<close>

datatype virStorageSource =
  VirStorageSource
    (src_type: int)
    (src_protocol: int)
    (src_path: string)
    (src_format: int)
    (src_backingStoreRaw: "string option")
    (src_backingStore: "virStorageSource option")

fun set_format :: "int \<Rightarrow> virStorageSource \<Rightarrow> virStorageSource" where
  "set_format f (VirStorageSource t pr pa fo raw bs) = VirStorageSource t pr pa f raw bs"

fun set_backingStoreRaw :: "string option \<Rightarrow> virStorageSource \<Rightarrow> virStorageSource" where
  "set_backingStoreRaw raw (VirStorageSource t pr pa fo r bs) = VirStorageSource t pr pa fo raw bs"

fun set_backingStore :: "virStorageSource option \<Rightarrow> virStorageSource \<Rightarrow> virStorageSource" where
  "set_backingStore b (VirStorageSource t pr pa fo raw bs) = VirStorageSource t pr pa fo raw b"

text \<open>
  The formats are enumerators of \<^verbatim>\<open>virStorageFileFormat\<close> in \<^verbatim>\<open>virstoragefile.h\<close>,
  which is not among the sources. The two automatic formats sort below "none", which
  sorts below raw and every concrete format.
\<close>

text \<open>
  Modelled from the spec: the format "auto-safe" of section 4.5; its declaration is
  missing.
\<close>

definition VIR_STORAGE_FILE_AUTO_SAFE :: int where
  "VIR_STORAGE_FILE_AUTO_SAFE = -2"

text \<open>
  Modelled from the spec: the format "auto" of section 4.5; its declaration is missing.
\<close>

definition VIR_STORAGE_FILE_AUTO :: int where
  "VIR_STORAGE_FILE_AUTO = -1"

text \<open>
  Modelled from the spec: no format given (section 4.5: a root source has "a
  user-declared or auto format"); its declaration is missing.
\<close>

definition VIR_STORAGE_FILE_NONE :: int where
  "VIR_STORAGE_FILE_NONE = 0"

text \<open>
  Modelled from the spec: the format raw of section 4.5; its declaration is missing.
\<close>

definition VIR_STORAGE_FILE_RAW :: int where
  "VIR_STORAGE_FILE_RAW = 1"

text \<open>
  Modelled from the spec: the "fixed maximum header size" of section 4.5; its
  declaration is missing.
\<close>

definition VIR_STORAGE_MAX_HEADER :: int where
  "VIR_STORAGE_MAX_HEADER = 33280"

text \<open>
  Modelled from the spec: the mode of the existence check (section 4.5, step 2), a macro
  of the C library.
\<close>

definition F_OK :: int where
  "F_OK = 0"

record virStorageDriverData =
  drv_uid :: uint
  drv_gid :: uint

text \<open>
  Modelled from the spec: the storage-file backend contract of section 6 (\<open>init\<close>,
  \<open>access\<close>, \<open>readHeader\<close>, \<open>getUniqueIdentifier\<close>); the table \<^verbatim>\<open>virStorageFileBackend\<close> is
  declared in \<^verbatim>\<open>storage_backend.h\<close>. Each slot is optional.
\<close>

record virStorageFileBackend =
  backendInit :: "(virStorageDriverData \<Rightarrow> virStorageSource \<Rightarrow> int) option"
  storageFileReadHeader ::
    "(virStorageDriverData \<Rightarrow> virStorageSource \<Rightarrow> int \<Rightarrow> int \<times> string) option"
  storageFileGetUniqueIdentifier ::
    "(virStorageDriverData \<Rightarrow> virStorageSource \<Rightarrow> string option) option"
  storageFileAccess :: "(virStorageDriverData \<Rightarrow> virStorageSource \<Rightarrow> int \<Rightarrow> int) option"

text \<open>
  What the resolver takes from outside the sources: the registry of file backends, the
  actual type of a source, the effective ids of the process, the header parser
  \<^verbatim>\<open>virStorageFileGetMetadataInternal\<close> (return code, the source as it leaves it, the
  backing format it found) and \<^verbatim>\<open>virStorageSourceNewFromBacking\<close>.
\<close>

record file_env =
  virStorageSourceGetActualType :: "virStorageSource \<Rightarrow> int"
  virStorageFileBackendForType :: "int \<Rightarrow> int \<Rightarrow> virStorageFileBackend option"
  geteuid :: uint
  getegid :: uint
  virStorageFileGetMetadataInternal ::
    "virStorageSource \<Rightarrow> string \<Rightarrow> int \<Rightarrow> int \<times> virStorageSource \<times> int"
  virStorageSourceNewFromBacking :: "virStorageSource \<Rightarrow> virStorageSource option"

type_synonym drv = "(virStorageDriverData \<times> virStorageFileBackend) option"

definition virStorageFileSupportsBackingChainTraversal ::
  "file_env \<Rightarrow> drv \<Rightarrow> virStorageSource \<Rightarrow> bool" where
  "virStorageFileSupportsBackingChainTraversal env d src =
     (case (case d of
              Some (dd, b) \<Rightarrow> Some b
            | None \<Rightarrow> virStorageFileBackendForType env
                        (virStorageSourceGetActualType env src) (src_protocol src)) of
        None \<Rightarrow> False
      | Some backend \<Rightarrow>
          storageFileGetUniqueIdentifier backend \<noteq> None
          \<and> storageFileReadHeader backend \<noteq> None
          \<and> storageFileAccess backend \<noteq> None)"

definition virStorageFileInitAs ::
  "file_env \<Rightarrow> virStorageSource \<Rightarrow> uint \<Rightarrow> uint
     \<Rightarrow> virError + (virStorageDriverData \<times> virStorageFileBackend)" where
  "virStorageFileInitAs env src uid gid =
     (let dd = \<lparr>drv_uid = (if uid = -1 then geteuid env else uid),
                drv_gid = (if gid = -1 then getegid env else gid)\<rparr>
      in
      case virStorageFileBackendForType env
             (virStorageSourceGetActualType env src) (src_protocol src) of
        None \<Rightarrow> Inl (ErrorFrom BackendRegistry)
      | Some b \<Rightarrow>
          if (case backendInit b of None \<Rightarrow> False | Some init \<Rightarrow> init dd src < 0)
          then Inl (ErrorFrom Backend)
          else Inr (dd, b))"

abbreviation file_not_initialized :: virError where
  "file_not_initialized \<equiv> VirError VIR_ERR_INTERNAL_ERROR ''storage file backend not initialized''"

abbreviation header_not_supported :: virError where
  "header_not_supported \<equiv>
     VirError VIR_ERR_INTERNAL_ERROR ''storage file header reading is not supported''"

abbreviation identifier_not_implemented :: virError where
  "identifier_not_implemented \<equiv>
     VirError VIR_ERR_INTERNAL_ERROR ''unique storage file identifier not implemented''"

abbreviation cannot_access :: virError where
  "cannot_access \<equiv> VirError VIR_ERR_SYSTEM_ERROR ''Cannot access backing file''"

abbreviation self_referential :: virError where
  "self_referential \<equiv> VirError VIR_ERR_INTERNAL_ERROR ''backing store is self-referential''"

definition virStorageFileReadHeader ::
  "drv \<Rightarrow> virStorageSource \<Rightarrow> int \<Rightarrow> int \<times> string \<times> virError list" where
  "virStorageFileReadHeader d src max_len =
     (case d of
        None \<Rightarrow> (-1, [], [file_not_initialized])
      | Some (dd, b) \<Rightarrow>
          (case storageFileReadHeader b of
             None \<Rightarrow> (-2, [], [header_not_supported])
           | Some rd \<Rightarrow>
               (case rd dd src max_len of
                  (ret, buf) \<Rightarrow> (ret, buf, if ret < 0 then [ErrorFrom Backend] else []))))"

definition virStorageFileGetUniqueIdentifier :: "drv \<Rightarrow> virStorageSource \<Rightarrow> virError + string" where
  "virStorageFileGetUniqueIdentifier d src =
     (case d of
        None \<Rightarrow> Inl file_not_initialized
      | Some (dd, b) \<Rightarrow>
          (case storageFileGetUniqueIdentifier b of
             None \<Rightarrow> Inl identifier_not_implemented
           | Some gu \<Rightarrow>
               (case gu dd src of None \<Rightarrow> Inl (ErrorFrom Backend) | Some n \<Rightarrow> Inr n)))"

definition virStorageFileAccess :: "drv \<Rightarrow> virStorageSource \<Rightarrow> int \<Rightarrow> int" where
  "virStorageFileAccess d src mode =
     (case d of
        None \<Rightarrow> -2
      | Some (dd, b) \<Rightarrow>
          (case storageFileAccess b of None \<Rightarrow> -2 | Some ac \<Rightarrow> ac dd src mode))"

text \<open>
  What a step does with the outcome of the step on its backing source (lines 2744-2755):
  a failure below is dropped and the source keeps no \<^verbatim>\<open>backingStore\<close>; otherwise the
  resolved backing source is attached. Either way the step itself returns 0.
\<close>

abbreviation link_backing ::
  "virStorageSource \<Rightarrow> int \<times> virStorageSource \<times> virError list
     \<Rightarrow> (int \<times> virStorageSource \<times> virError list) option" where
  "link_backing src1 \<equiv>
     (\<lambda>(r2, backingStore1, errs2).
        if r2 < 0 then Some (0, src1, errs2)
        else Some (0, set_backingStore (Some backingStore1) src1, errs2))"

text \<open>
  \<^verbatim>\<open>virStorageFileGetMetadataRecurse\<close> (lines 2675-2762). The result is the return code,
  the source as the call leaves it, and the errors reported on the way, oldest first.
  Nothing bounds the recursion but the set \<open>cycle\<close> of identities seen so far, so the
  function is partial: \<open>None\<close> is a traversal that does not return.
\<close>

partial_function (option) virStorageFileGetMetadataRecurse ::
  "file_env \<Rightarrow> virStorageSource \<Rightarrow> uint \<Rightarrow> uint \<Rightarrow> bool \<Rightarrow> string set
     \<Rightarrow> (int \<times> virStorageSource \<times> virError list) option" where
  "virStorageFileGetMetadataRecurse env src uid gid allow_probe cycle =
     (if \<not> virStorageFileSupportsBackingChainTraversal env None src then Some (0, src, [])
      else
        (case virStorageFileInitAs env src uid gid of
           Inl e \<Rightarrow> Some (-1, src, [e])
         | Inr d \<Rightarrow>
             if virStorageFileAccess (Some d) src F_OK < 0 then Some (-1, src, [cannot_access])
             else
               (case virStorageFileGetUniqueIdentifier (Some d) src of
                  Inl e \<Rightarrow> Some (-1, src, [e])
                | Inr uniqueName \<Rightarrow>
                    if uniqueName \<in> cycle then Some (-1, src, [self_referential])
                    else
                      (case virStorageFileReadHeader (Some d) src VIR_STORAGE_MAX_HEADER of
                         (headerLen, buf, errs) \<Rightarrow>
                           if headerLen < 0 then Some (-1, src, errs)
                           else
                             (case virStorageFileGetMetadataInternal env src buf headerLen of
                                (r, src1, backingFormat) \<Rightarrow>
                                  if r < 0 then Some (-1, src1, [ErrorFrom FileHelper])
                                  else if src_backingStoreRaw src1 = None then Some (0, src1, [])
                                  else
                                    (case virStorageSourceNewFromBacking env src1 of
                                       None \<Rightarrow> Some (-1, src1, [ErrorFrom FileHelper])
                                     | Some backingStore \<Rightarrow>
                                         Option.bind
                                           (virStorageFileGetMetadataRecurse env
                                              (set_format
                                                 (if backingFormat = VIR_STORAGE_FILE_AUTO
                                                     \<and> \<not> allow_probe
                                                  then VIR_STORAGE_FILE_RAW
                                                  else if backingFormat = VIR_STORAGE_FILE_AUTO_SAFE
                                                  then VIR_STORAGE_FILE_AUTO
                                                  else backingFormat)
                                                 backingStore)
                                              uid gid allow_probe (insert uniqueName cycle))
                                           (link_backing src1)))))))"

text \<open>\<^verbatim>\<open>virStorageFileGetMetadata\<close> (lines 2782-2806) starts the walk with an empty set.\<close>

definition virStorageFileGetMetadata ::
  "file_env \<Rightarrow> virStorageSource \<Rightarrow> uint \<Rightarrow> uint \<Rightarrow> bool
     \<Rightarrow> (int \<times> virStorageSource \<times> virError list) option" where
  "virStorageFileGetMetadata env src uid gid allow_probe =
     virStorageFileGetMetadataRecurse env
       (if src_format src \<le> VIR_STORAGE_FILE_NONE
        then set_format (if allow_probe then VIR_STORAGE_FILE_AUTO else VIR_STORAGE_FILE_RAW) src
        else src)
       uid gid allow_probe {}"


section \<open>Example configurations\<close>

text \<open>
  A backend whose calls all succeed, a connection that allows every API and whose parsers
  read the name of the object off the XML text, and a store with one active, persistent
  pool \<open>p1\<close> holding one idle volume \<open>v1\<close> (capacity 100, allocation 10).
\<close>

definition ex_backend :: virStorageBackend where
  "ex_backend =
     \<lparr>startPool = None,
      stopPool = None,
      refreshPool = (\<lambda>pool. (0, \<lparr>r_volumes = [], r_capacity = 0, r_allocation = 0,
                                  r_available = 0\<rparr>)),
      createVol = Some (\<lambda>pool vol. (0, vol\<lparr>vol_key := Some (vol_name vol)\<rparr>)),
      buildVol = Some (\<lambda>pool vol flags. 0),
      buildVolFrom = Some (\<lambda>pool vol orig flags. 0),
      refreshVol = None,
      deleteVol = Some (\<lambda>pool vol flags. 0),
      resizeVol = Some (\<lambda>pool vol capacity flags. 0),
      wipeVol = Some (\<lambda>pool vol algorithm flags. 0),
      uploadVol = Some (\<lambda>pool vol offset len flags. 0)\<rparr>"

definition ex_conn_with :: "virStorageBackend \<Rightarrow> virConnect" where
  "ex_conn_with b =
     \<lparr>virStorageBackendForType = (\<lambda>t. Some b),
      ensureACL = (\<lambda>a. 0),
      virStoragePoolDefParseString =
        (\<lambda>xml. Some \<lparr>def_name = xml, def_uuid = map (of_nat \<circ> of_char) xml, def_type = 0,
                      def_capacity = 0, def_allocation = 0, def_available = 0\<rparr>),
      virStorageVolDefParseString =
        (\<lambda>d xml. Some \<lparr>vol_name = xml, vol_key = None, vol_building = False, vol_in_use = 0,
                        vol_capacity = 50, vol_allocation = 5\<rparr>),
      virStoragePoolObjSaveDef = (\<lambda>pool d. (0, ''/etc/libvirt/storage/'' @ def_name d)),
      virStoragePoolObjDeleteDef = (\<lambda>pool. 0),
      sourceMatches = (\<lambda>d1 d2. False)\<rparr>"

definition ex_vol :: virStorageVolDef where
  "ex_vol = \<lparr>vol_name = ''v1'', vol_key = Some ''k1'', vol_building = False, vol_in_use = 0,
             vol_capacity = 100, vol_allocation = 10\<rparr>"

definition ex_pool :: virStoragePoolObj where
  "ex_pool =
     \<lparr>def = \<lparr>def_name = ''p1'', def_uuid = [1], def_type = 0, def_capacity = 2000,
              def_allocation = 10, def_available = 1000\<rparr>,
      newDef = None, active = True, asyncjobs = 0, configFile = Some ''/etc/p1.xml'',
      volumes = [ex_vol]\<rparr>"

definition ex_pool_handle :: virStoragePool where
  "ex_pool_handle = \<lparr>sp_name = ''p1'', sp_uuid = [1]\<rparr>"

definition ex_vol_handle :: virStorageVol where
  "ex_vol_handle = \<lparr>sv_pool = ''p1'', sv_name = ''v1'', sv_key = Some ''k1''\<rparr>"


text \<open>
  Variations: the same pool with \<open>v1\<close> held by one consumer; a backend whose build fails;
  and one whose build fails and which has no \<open>deleteVol\<close> slot.
\<close>

definition ex_pool_busy :: virStoragePoolObj where
  "ex_pool_busy = ex_pool\<lparr>volumes := [ex_vol\<lparr>vol_in_use := 1\<rparr>]\<rparr>"

definition ex_backend_build_fails :: virStorageBackend where
  "ex_backend_build_fails = ex_backend\<lparr>buildVol := Some (\<lambda>pool vol flags. -1)\<rparr>"

definition ex_backend_no_rollback :: virStorageBackend where
  "ex_backend_no_rollback = ex_backend_build_fails\<lparr>deleteVol := None\<rparr>"

text \<open>A backend whose refresh fails, and \<open>p1\<close> as a transient pool (no config file).\<close>

definition ex_backend_refresh_fails :: virStorageBackend where
  "ex_backend_refresh_fails =
     ex_backend\<lparr>refreshPool :=
       (\<lambda>pool. (-1, \<lparr>r_volumes = [], r_capacity = 0, r_allocation = 0, r_available = 0\<rparr>))\<rparr>"

definition ex_pool_transient :: virStoragePoolObj where
  "ex_pool_transient = ex_pool\<lparr>configFile := None\<rparr>"

text \<open>
  Image files for the resolver. The directory is a list \<open>links\<close> of pairs (image, backing
  image named in its header); the images listed in \<open>missing\<close> fail the existence check.
  The one file backend has every slot but \<open>backendInit\<close>; the identity of an image is its
  path; the header parser records the backing name and reports the backing format as
  unspecified (auto); a backing source is a new source of the same type at that path.
  \<open>ex_file_env_safe\<close> is the same directory with a parser that reports "auto-safe".
\<close>

definition ex_file_backend :: "string list \<Rightarrow> virStorageFileBackend" where
  "ex_file_backend missing =
     \<lparr>backendInit = None,
      storageFileReadHeader = Some (\<lambda>dd src max_len. (int (length (src_path src)), src_path src)),
      storageFileGetUniqueIdentifier = Some (\<lambda>dd src. Some (src_path src)),
      storageFileAccess = Some (\<lambda>dd src mode. if src_path src \<in> set missing then -1 else 0)\<rparr>"

definition ex_file_env :: "(string \<times> string) list \<Rightarrow> string list \<Rightarrow> file_env" where
  "ex_file_env links missing =
     \<lparr>virStorageSourceGetActualType = src_type,
      virStorageFileBackendForType = (\<lambda>t pr. Some (ex_file_backend missing)),
      geteuid = 0,
      getegid = 0,
      virStorageFileGetMetadataInternal =
        (\<lambda>src buf len. (0, set_backingStoreRaw (map_of links (src_path src)) src,
                         VIR_STORAGE_FILE_AUTO)),
      virStorageSourceNewFromBacking =
        (\<lambda>src. map_option
                  (\<lambda>raw. VirStorageSource (src_type src) (src_protocol src) raw
                            VIR_STORAGE_FILE_NONE None None)
                  (src_backingStoreRaw src))\<rparr>"

definition ex_file_env_safe :: "(string \<times> string) list \<Rightarrow> string list \<Rightarrow> file_env" where
  "ex_file_env_safe links missing =
     (ex_file_env links missing)
       \<lparr>virStorageFileGetMetadataInternal :=
          (\<lambda>src buf len. (0, set_backingStoreRaw (map_of links (src_path src)) src,
                           VIR_STORAGE_FILE_AUTO_SAFE))\<rparr>"

definition ex_image :: "string \<Rightarrow> int \<Rightarrow> string option \<Rightarrow> virStorageSource option
                          \<Rightarrow> virStorageSource" where
  "ex_image pa fo raw bs = VirStorageSource 0 0 pa fo raw bs"


section \<open>Facts about lookups and the deletion loop\<close>

lemma find_first_index_Some:
  "find_first_index P xs = Some i \<Longrightarrow> i < length xs \<and> P (xs ! i)"
  by (induction xs arbitrary: i) (auto split: if_splits)

lemma find_first_index_None: "(find_first_index P xs = None) = (\<not> list_ex P xs)"
  by (induction xs) auto

lemma delete_vol_loop_from:
  "i \<le> vol \<Longrightarrow> vol < length objs \<Longrightarrow>
     delete_vol_loop i vol objs = take vol objs @ drop (Suc vol) objs"
proof (induction i vol objs rule: delete_vol_loop.induct)
  case (1 i vol objs)
  show ?case
  proof (cases "i = vol")
    case True
    with "1.prems" show ?thesis by (subst delete_vol_loop.simps) simp
  next
    case False
    with "1.prems" have "Suc i \<le> vol" "i < length objs" by simp_all
    with False "1.IH" "1.prems" show ?thesis by (subst delete_vol_loop.simps) simp
  qed
qed

lemma delete_vol_loop_0:
  "vol < length objs \<Longrightarrow> delete_vol_loop 0 vol objs = take vol objs @ drop (Suc vol) objs"
  by (rule delete_vol_loop_from) simp_all

lemma virStoragePoolObjFindByUUID_Some:
  "virStoragePoolObjFindByUUID pools u = Some p
     \<Longrightarrow> p < length pools \<and> def_uuid (def (pools ! p)) = u"
  by (auto simp: virStoragePoolObjFindByUUID_def dest!: find_first_index_Some)

lemma virStorageVolDefFromVol_Inr:
  assumes "virStorageVolDefFromVol conn pools obj = Inr (p, v, backend)"
  shows "p < length pools \<and> v < length (volumes (pools ! p)) \<and> active (pools ! p)
    \<and> def_name (def (pools ! p)) = sv_pool obj
    \<and> vol_name (volumes (pools ! p) ! v) = sv_name obj
    \<and> virStorageBackendForType conn (def_type (def (pools ! p))) = Some backend"
  using assms
  by (auto simp: virStorageVolDefFromVol_def virStoragePoolObjFindByName_def
      virStorageVolDefFindByName_def
      split: option.splits if_splits dest!: find_first_index_Some)

lemma storageVolDeleteInternal_ok:
  assumes "deleteVol backend = Some del" "\<not> del pool (volumes pool ! v) flags < 0"
    "v < length (volumes pool)"
  shows "storageVolDeleteInternal backend pool v flags True =
     (Inr (), pool\<lparr>def := (def pool)
                 \<lparr>def_allocation := def_allocation (def pool) - vol_allocation (volumes pool ! v),
                  def_available := def_available (def pool) + vol_allocation (volumes pool ! v)\<rparr>,
               volumes := take v (volumes pool) @ drop (Suc v) (volumes pool)\<rparr>)"
  using assms by (simp add: storageVolDeleteInternal_def delete_vol_loop_0 Let_def)

lemma storageVolDeleteInternal_last:
  "storageVolDeleteInternal backend (pool\<lparr>volumes := volumes pool @ [vol]\<rparr>)
       (length (volumes pool)) flags False =
     (case deleteVol backend of
        None \<Rightarrow> (Inl no_vol_deletion, pool\<lparr>volumes := volumes pool @ [vol]\<rparr>)
      | Some del \<Rightarrow>
          if del (pool\<lparr>volumes := volumes pool @ [vol]\<rparr>) vol flags < 0
          then (Inl (ErrorFrom Backend), pool\<lparr>volumes := volumes pool @ [vol]\<rparr>)
          else (Inr (), pool))"
  by (simp add: storageVolDeleteInternal_def delete_vol_loop_0 split: option.splits)

lemma build_round_trip:
  "end_build (begin_build (pool\<lparr>volumes := vs @ [vol]\<rparr>) (length vs)) (length vs)
     = pool\<lparr>volumes := vs @ [vol\<lparr>vol_building := False\<rparr>]\<rparr>"
  by (simp add: begin_build_def end_build_def)

lemmas ex_defs =
  ex_backend_def ex_conn_with_def ex_vol_def ex_pool_def ex_pool_handle_def ex_vol_handle_def

lemma ex_resolves:
  "virStorageVolDefFromVol (ex_conn_with b) [ex_pool] ex_vol_handle = Inr (0, 0, b)"
  by (simp add: virStorageVolDefFromVol_def virStoragePoolObjFindByName_def
      virStorageVolDefFindByName_def ex_conn_with_def ex_vol_def ex_pool_def ex_vol_handle_def)

lemma ex_busy_resolves:
  "virStorageVolDefFromVol (ex_conn_with b) [ex_pool_busy] ex_vol_handle = Inr (0, 0, b)"
  by (simp add: virStorageVolDefFromVol_def virStoragePoolObjFindByName_def
      virStorageVolDefFindByName_def ex_conn_with_def ex_vol_def ex_pool_def ex_pool_busy_def
      ex_vol_handle_def)

lemma ex_find_uuid: "virStoragePoolObjFindByUUID [ex_pool] (sp_uuid ex_pool_handle) = Some 0"
  by (simp add: virStoragePoolObjFindByUUID_def ex_pool_def ex_pool_handle_def)

section \<open>Volume accounting\<close>

text \<open>
  Whatever the flags, a resize that succeeds leaves both counters of the pool as they
  were: line 2081 has already stored \<open>abs_capacity\<close> in the volume when lines 2086-2087
  subtract the volume's capacity from it.
\<close>

lemma storageVolResize_counters_unchanged:
  assumes "storageVolResize conn pools obj capacity flags = (Inr u, pools')"
    and "virStorageVolDefFromVol conn pools obj = Inr (p, v, backend)"
  shows "def_allocation (def (pools' ! p)) = def_allocation (def (pools ! p))
       \<and> def_available (def (pools' ! p)) = def_available (def (pools ! p))"
proof -
  from virStorageVolDefFromVol_Inr [OF assms(2)] have p: "p < length pools" by simp
  show ?thesis
    using assms p
    by (auto simp: storageVolResize_def Let_def split: if_splits option.splits)
qed

text \<open>
  Claim C1: every successful resize adjusts the pool's allocation and available by the
  change of the volume's allocation. The code does not: resizing \<open>v1\<close> (capacity 100,
  allocation 10) of \<open>p1\<close> (allocation 10, available 1000) to 200 with
  \<^verbatim>\<open>VIR_STORAGE_VOL_RESIZE_ALLOCATE\<close> succeeds and raises the volume's allocation to 200,
  and the pool still has allocation 10 and available 1000.
\<close>

theorem storageVolResize_allocate_leaves_pool_counters:
  "storageVolResize (ex_conn_with ex_backend) [ex_pool] ex_vol_handle 200
       VIR_STORAGE_VOL_RESIZE_ALLOCATE
     = (Inr (), [ex_pool\<lparr>volumes := [ex_vol\<lparr>vol_capacity := 200, vol_allocation := 200\<rparr>]\<rparr>])
   \<and> vol_allocation ex_vol = 10
   \<and> def_allocation (def ex_pool) = 10
   \<and> def_available (def ex_pool) = 1000
   \<and> def_allocation
         (def (snd (storageVolResize (ex_conn_with ex_backend) [ex_pool] ex_vol_handle 200
                      VIR_STORAGE_VOL_RESIZE_ALLOCATE) ! 0)) = 10
   \<and> def_available
         (def (snd (storageVolResize (ex_conn_with ex_backend) [ex_pool] ex_vol_handle 200
                      VIR_STORAGE_VOL_RESIZE_ALLOCATE) ! 0)) = 1000"
  unfolding storageVolResize_def ex_resolves
  by (simp add: virCheckFlags_def VIR_STORAGE_VOL_RESIZE_ALLOCATE_def
        VIR_STORAGE_VOL_RESIZE_DELTA_def VIR_STORAGE_VOL_RESIZE_SHRINK_def Let_def ex_defs)

text \<open>
  Claim C5: when the guards pass (the volume is neither in use nor building) and the
  backend's \<open>deleteVol\<close> succeeds, \<^verbatim>\<open>storageVolDelete\<close> succeeds, takes the volume's
  recorded allocation off the pool's allocation and adds it to the pool's available, and
  removes the volume from the pool's list. The counters are 64-bit: the two differences
  are the volume's allocation exactly, and they are differences of natural numbers
  whenever the subtraction and the addition do not wrap.
\<close>

theorem storageVolDelete_accounting:
  assumes "virStorageVolDefFromVol conn pools obj = Inr (p, v, backend)"
    and "\<not> ensureACL conn VolDelete < 0"
    and "vol_in_use (volumes (pools ! p) ! v) = 0"
    and "\<not> vol_building (volumes (pools ! p) ! v)"
    and "deleteVol backend = Some del"
    and "\<not> del (pools ! p) (volumes (pools ! p) ! v) flags < 0"
    and "pools' = snd (storageVolDelete conn pools obj flags)"
    and "vol = volumes (pools ! p) ! v"
  shows "fst (storageVolDelete conn pools obj flags) = Inr ()
    \<and> pools' = pools[p := pools' ! p]
    \<and> def_allocation (def (pools' ! p)) = def_allocation (def (pools ! p)) - vol_allocation vol
    \<and> def_available (def (pools' ! p)) = def_available (def (pools ! p)) + vol_allocation vol
    \<and> def_allocation (def (pools ! p)) - def_allocation (def (pools' ! p)) = vol_allocation vol
    \<and> def_available (def (pools' ! p)) - def_available (def (pools ! p)) = vol_allocation vol
    \<and> (vol_allocation vol \<le> def_allocation (def (pools ! p)) \<longrightarrow>
          unat (def_allocation (def (pools' ! p)))
            = unat (def_allocation (def (pools ! p))) - unat (vol_allocation vol))
    \<and> (unat (def_available (def (pools ! p))) + unat (vol_allocation vol) < 2 ^ 64 \<longrightarrow>
          unat (def_available (def (pools' ! p)))
            = unat (def_available (def (pools ! p))) + unat (vol_allocation vol))
    \<and> volumes (pools' ! p) = take v (volumes (pools ! p)) @ drop (Suc v) (volumes (pools ! p))
    \<and> length (volumes (pools' ! p)) + 1 = length (volumes (pools ! p))"
proof -
  from virStorageVolDefFromVol_Inr [OF assms(1)]
  have p: "p < length pools" and v: "v < length (volumes (pools ! p))" by simp_all
  note di = storageVolDeleteInternal_ok [OF assms(5) assms(6) v]
  have run: "storageVolDelete conn pools obj flags =
     (Inr (), pools[p := (pools ! p)\<lparr>def := (def (pools ! p))
                 \<lparr>def_allocation := def_allocation (def (pools ! p)) - vol_allocation vol,
                  def_available := def_available (def (pools ! p)) + vol_allocation vol\<rparr>,
               volumes := take v (volumes (pools ! p)) @ drop (Suc v) (volumes (pools ! p))\<rparr>])"
    using assms(1-4) by (simp add: storageVolDelete_def di assms(8))
  have sub: "vol_allocation vol \<le> def_allocation (def (pools ! p)) \<Longrightarrow>
          unat (def_allocation (def (pools ! p)) - vol_allocation vol)
            = unat (def_allocation (def (pools ! p))) - unat (vol_allocation vol)"
    by (rule unat_sub)
  have add: "unat (def_available (def (pools ! p))) + unat (vol_allocation vol) < 2 ^ 64 \<Longrightarrow>
          unat (def_available (def (pools ! p)) + vol_allocation vol)
            = unat (def_available (def (pools ! p))) + unat (vol_allocation vol)"
    by (simp add: unat_add_lem [THEN iffD1])
  show ?thesis
    unfolding assms(7) run using p v sub add by simp
qed

theorem storageVolDelete_accounting_witness:
  "fst (storageVolDelete (ex_conn_with ex_backend) [ex_pool] ex_vol_handle 0) = Inr ()
   \<and> def_allocation (def (snd (storageVolDelete (ex_conn_with ex_backend) [ex_pool]
                                 ex_vol_handle 0) ! 0)) = 0
   \<and> def_available (def (snd (storageVolDelete (ex_conn_with ex_backend) [ex_pool]
                                 ex_vol_handle 0) ! 0)) = 1010
   \<and> unat (def_available (def (snd (storageVolDelete (ex_conn_with ex_backend) [ex_pool]
                                       ex_vol_handle 0) ! 0))) = 1000 + 10
   \<and> volumes (snd (storageVolDelete (ex_conn_with ex_backend) [ex_pool] ex_vol_handle 0) ! 0)
       = []"
proof -
  have h2: "\<not> ensureACL (ex_conn_with ex_backend) VolDelete < 0"
    by (simp add: ex_conn_with_def)
  have h3: "vol_in_use (volumes ([ex_pool] ! 0) ! 0) = 0" by (simp add: ex_pool_def ex_vol_def)
  have h4: "\<not> vol_building (volumes ([ex_pool] ! 0) ! 0)" by (simp add: ex_pool_def ex_vol_def)
  have h5: "deleteVol ex_backend = Some (the (deleteVol ex_backend))"
    by (simp add: ex_backend_def)
  have h6: "\<not> the (deleteVol ex_backend) ([ex_pool] ! 0) (volumes ([ex_pool] ! 0) ! 0) 0 < 0"
    by (simp add: ex_backend_def)
  from storageVolDelete_accounting [OF ex_resolves h2 h3 h4 h5 h6 refl refl]
  show ?thesis by (simp add: ex_pool_def ex_vol_def)
qed


section \<open>Guards on volumes in use\<close>

text \<open>
  Claim C6: while a volume has \<open>in_use > 0\<close>, delete, resize, wipe and upload fail and
  leave the whole store (the volume, its pool's list, the pool's counters) as it was; a
  call on that volume can therefore succeed only once \<open>in_use\<close> is 0. When the call gets
  as far as the guard (its flags are accepted and the access check passes), the error is
  the invalid-operation error "volume is still in use".
\<close>

theorem in_use_guard:
  assumes "virStorageVolDefFromVol conn pools obj = Inr (p, v, backend)"
    and "vol_in_use (volumes (pools ! p) ! v) > 0"
  shows "isl (fst (storageVolDelete conn pools obj flags))
       \<and> snd (storageVolDelete conn pools obj flags) = pools
       \<and> isl (fst (storageVolResize conn pools obj capacity flags))
       \<and> snd (storageVolResize conn pools obj capacity flags) = pools
       \<and> isl (fst (storageVolWipe conn pools obj flags))
       \<and> snd (storageVolWipe conn pools obj flags) = pools
       \<and> isl (fst (storageVolUpload conn pools obj offset len flags))
       \<and> snd (storageVolUpload conn pools obj offset len flags) = pools
       \<and> (\<not> ensureACL conn VolDelete < 0 \<longrightarrow>
            storageVolDelete conn pools obj flags = (Inl vol_still_in_use, pools))
       \<and> (\<not> ensureACL conn VolResize < 0
            \<and> virCheckFlags (VIR_STORAGE_VOL_RESIZE_ALLOCATE OR VIR_STORAGE_VOL_RESIZE_DELTA
                               OR VIR_STORAGE_VOL_RESIZE_SHRINK) flags \<longrightarrow>
            storageVolResize conn pools obj capacity flags = (Inl vol_still_in_use, pools))
       \<and> (\<not> ensureACL conn VolWipePattern < 0 \<and> virCheckFlags 0 flags \<longrightarrow>
            storageVolWipe conn pools obj flags = (Inl vol_still_in_use, pools))
       \<and> (\<not> ensureACL conn VolUpload < 0 \<and> virCheckFlags 0 flags \<longrightarrow>
            storageVolUpload conn pools obj offset len flags = (Inl vol_still_in_use, pools))"
proof -
  from assms(2) have nz: "vol_in_use (volumes (pools ! p) ! v) \<noteq> 0" by auto
  have alg: "\<not> VIR_STORAGE_VOL_WIPE_ALG_LAST \<le> VIR_STORAGE_VOL_WIPE_ALG_ZERO"
    by (simp add: VIR_STORAGE_VOL_WIPE_ALG_LAST_def VIR_STORAGE_VOL_WIPE_ALG_ZERO_def)
  have d: "isl (fst (storageVolDelete conn pools obj flags))
       \<and> snd (storageVolDelete conn pools obj flags) = pools
       \<and> (\<not> ensureACL conn VolDelete < 0 \<longrightarrow>
            storageVolDelete conn pools obj flags = (Inl vol_still_in_use, pools))"
    using assms(1) nz by (simp add: storageVolDelete_def)
  have r: "isl (fst (storageVolResize conn pools obj capacity flags))
       \<and> snd (storageVolResize conn pools obj capacity flags) = pools
       \<and> (\<not> ensureACL conn VolResize < 0
            \<and> virCheckFlags (VIR_STORAGE_VOL_RESIZE_ALLOCATE OR VIR_STORAGE_VOL_RESIZE_DELTA
                               OR VIR_STORAGE_VOL_RESIZE_SHRINK) flags \<longrightarrow>
            storageVolResize conn pools obj capacity flags = (Inl vol_still_in_use, pools))"
    using assms(1) nz by (simp add: storageVolResize_def Let_def)
  have w: "isl (fst (storageVolWipe conn pools obj flags))
       \<and> snd (storageVolWipe conn pools obj flags) = pools
       \<and> (\<not> ensureACL conn VolWipePattern < 0 \<and> virCheckFlags 0 flags \<longrightarrow>
            storageVolWipe conn pools obj flags = (Inl vol_still_in_use, pools))"
    using assms(1) nz alg by (simp add: storageVolWipe_def storageVolWipePattern_def)
  have u: "isl (fst (storageVolUpload conn pools obj offset len flags))
       \<and> snd (storageVolUpload conn pools obj offset len flags) = pools
       \<and> (\<not> ensureACL conn VolUpload < 0 \<and> virCheckFlags 0 flags \<longrightarrow>
            storageVolUpload conn pools obj offset len flags = (Inl vol_still_in_use, pools))"
    using assms(1) nz by (simp add: storageVolUpload_def)
  from d r w u show ?thesis by simp
qed

theorem in_use_guard_witness:
  "vol_in_use (volumes ([ex_pool_busy] ! 0) ! 0) > 0
   \<and> storageVolDelete (ex_conn_with ex_backend) [ex_pool_busy] ex_vol_handle 0
       = (Inl vol_still_in_use, [ex_pool_busy])
   \<and> storageVolResize (ex_conn_with ex_backend) [ex_pool_busy] ex_vol_handle 200 0
       = (Inl vol_still_in_use, [ex_pool_busy])
   \<and> storageVolWipe (ex_conn_with ex_backend) [ex_pool_busy] ex_vol_handle 0
       = (Inl vol_still_in_use, [ex_pool_busy])
   \<and> storageVolUpload (ex_conn_with ex_backend) [ex_pool_busy] ex_vol_handle 0 0 0
       = (Inl vol_still_in_use, [ex_pool_busy])"
proof -
  have h2: "vol_in_use (volumes ([ex_pool_busy] ! 0) ! 0) > 0"
    by (simp add: ex_pool_busy_def ex_pool_def ex_vol_def)
  from in_use_guard [OF ex_busy_resolves h2, of ex_backend 0 200 0 0] h2
  show ?thesis by (simp add: ex_conn_with_def virCheckFlags_def)
qed

section \<open>Rollback of a failed build\<close>

text \<open>
  Claim C2, amended: if the backend's \<open>buildVol\<close> call made by \<^verbatim>\<open>storageVolCreateXML\<close>
  fails, the call fails and the pool's allocation and available are what they were
  before the call. The volume just created is taken out of the pool's list again when
  the backend has a \<open>deleteVol\<close> slot and that call succeeds, and then the whole store is
  as before the call; when the slot is missing or \<open>deleteVol\<close> fails, the volume stays in
  the list, no longer marked as building.
\<close>

theorem storageVolCreateXML_build_failure:
  assumes "virCheckFlags VIR_STORAGE_VOL_CREATE_PREALLOC_METADATA flags"
    and "virStoragePoolObjFindByUUID pools (sp_uuid obj) = Some p"
    and "active (pools ! p)"
    and "virStorageBackendForType conn (def_type (def (pools ! p))) = Some backend"
    and "virStorageVolDefParseString conn (def (pools ! p)) xmldesc = Some voldef"
    and "\<not> ensureACL conn VolCreateXML < 0"
    and "virStorageVolDefFindByName (pools ! p) (vol_name voldef) = None"
    and "createVol backend = Some cv"
    and "cv (pools ! p) (voldef\<lparr>vol_key := None\<rparr>) = (r, voldef1)"
    and "\<not> r < 0"
    and "buildVol backend = Some bv"
    and "bv (begin_build ((pools ! p)\<lparr>volumes := volumes (pools ! p) @ [voldef1]\<rparr>)
              (length (volumes (pools ! p)))) voldef1 flags < 0"
    and "kept = (pools ! p)\<lparr>volumes := volumes (pools ! p) @ [voldef1\<lparr>vol_building := False\<rparr>]\<rparr>"
    and "res = storageVolCreateXML conn pools obj xmldesc flags"
  shows "isl (fst res)
       \<and> length (snd res) = length pools
       \<and> def_allocation (def (snd res ! p)) = def_allocation (def (pools ! p))
       \<and> def_available (def (snd res ! p)) = def_available (def (pools ! p))
       \<and> (case deleteVol backend of
             None \<Rightarrow> snd res = pools[p := kept]
           | Some del \<Rightarrow>
               if del kept (voldef1\<lparr>vol_building := False\<rparr>) 0 < 0
               then snd res = pools[p := kept]
               else snd res = pools)"
proof -
  from virStoragePoolObjFindByUUID_Some [OF assms(2)] have p: "p < length pools" by simp
  have res: "res =
     (case storageVolDeleteInternal backend kept (length (volumes (pools ! p))) 0 False of
        (Inl e, pool4) \<Rightarrow> (Inl e, pools[p := pool4])
      | (Inr u, pool4) \<Rightarrow> (Inl (ErrorFrom Backend), pools[p := pool4]))"
    unfolding assms(14) storageVolCreateXML_def
    using assms(1-12) by (simp add: Let_def build_round_trip assms(13))
  show ?thesis
    unfolding res assms(13) storageVolDeleteInternal_last
    using p by (simp split: option.splits)
qed

theorem storageVolCreateXML_build_failure_witness:
  "isl (fst (storageVolCreateXML (ex_conn_with ex_backend_build_fails) [ex_pool]
               ex_pool_handle ''v2'' 0))
   \<and> snd (storageVolCreateXML (ex_conn_with ex_backend_build_fails) [ex_pool]
               ex_pool_handle ''v2'' 0) = [ex_pool]"
proof -
  let ?conn = "ex_conn_with ex_backend_build_fails"
  let ?voldef = "\<lparr>vol_name = ''v2'', vol_key = None, vol_building = False, vol_in_use = 0,
                   vol_capacity = 50, vol_allocation = 5\<rparr>"
  let ?voldef1 = "?voldef\<lparr>vol_key := Some ''v2''\<rparr>"
  have h1: "virCheckFlags VIR_STORAGE_VOL_CREATE_PREALLOC_METADATA 0"
    by (simp add: virCheckFlags_def)
  have h3: "active ([ex_pool] ! 0)" by (simp add: ex_pool_def)
  have h4: "virStorageBackendForType ?conn (def_type (def ([ex_pool] ! 0)))
              = Some ex_backend_build_fails"
    by (simp add: ex_conn_with_def)
  have h5: "virStorageVolDefParseString ?conn (def ([ex_pool] ! 0)) ''v2'' = Some ?voldef"
    by (simp add: ex_conn_with_def)
  have h6: "\<not> ensureACL ?conn VolCreateXML < 0" by (simp add: ex_conn_with_def)
  have h7: "virStorageVolDefFindByName ([ex_pool] ! 0) (vol_name ?voldef) = None"
    by (simp add: virStorageVolDefFindByName_def ex_pool_def ex_vol_def)
  have h8: "createVol ex_backend_build_fails
              = Some (\<lambda>pool vol. (0, vol\<lparr>vol_key := Some (vol_name vol)\<rparr>))"
    by (simp add: ex_backend_build_fails_def ex_backend_def)
  have h9: "(\<lambda>pool vol. (0::int, vol\<lparr>vol_key := Some (vol_name vol)\<rparr>)) ([ex_pool] ! 0)
              (?voldef\<lparr>vol_key := None\<rparr>) = (0, ?voldef1)"
    by simp
  have h10: "\<not> (0::int) < 0" by simp
  have h11: "buildVol ex_backend_build_fails = Some (\<lambda>pool vol flags. -1)"
    by (simp add: ex_backend_build_fails_def)
  have h12: "(\<lambda>pool vol flags. -1::int)
               (begin_build (([ex_pool] ! 0)\<lparr>volumes := volumes ([ex_pool] ! 0) @ [?voldef1]\<rparr>)
                  (length (volumes ([ex_pool] ! 0)))) ?voldef1 (0::uint) < 0"
    by simp
  from storageVolCreateXML_build_failure [OF h1 ex_find_uuid h3 h4 h5 h6 h7 h8 h9 h10 h11 h12 refl refl]
  show ?thesis
    by (simp add: ex_backend_build_fails_def ex_backend_def)
qed

text \<open>
  As first stated, the claim has the volume absent after every failed build. With a
  backend that has no \<open>deleteVol\<close> slot the failed volume \<open>v2\<close> is still listed after
  the call.
\<close>

theorem storageVolCreateXML_failed_build_keeps_volume:
  "map vol_name
     (volumes (snd (storageVolCreateXML (ex_conn_with ex_backend_no_rollback) [ex_pool]
                      ex_pool_handle ''v2'' 0) ! 0))
   = [''v1'', ''v2'']"
  unfolding storageVolCreateXML_def ex_find_uuid
  by (simp add: virCheckFlags_def VIR_STORAGE_VOL_CREATE_PREALLOC_METADATA_def Let_def
        virStorageVolDefFindByName_def storageVolDeleteInternal_def begin_build_def end_build_def
        ex_backend_no_rollback_def ex_backend_build_fails_def ex_defs)

section \<open>Cloning a volume\<close>

lemma clone_states:
  assumes p: "p < length pools1"
    and o: "opl < length pools1"
    and ov: "ov < length (volumes (pools1 ! opl))"
    and np: "origpool \<noteq> Some p"
    and opl: "opl = (case origpool of None \<Rightarrow> p | Some q \<Rightarrow> q)"
    and b: "building =
       (case origpool of
          None \<Rightarrow>
            upd_vol
              (upd_vol
                 (upd_pool
                    (upd_pool pools1 p (\<lambda>pl. pl\<lparr>volumes := volumes pl @ [created]\<rparr>))
                    p (\<lambda>pl. pl\<lparr>asyncjobs := asyncjobs pl + 1\<rparr>))
                 p (length (volumes (pools1 ! p))) (\<lambda>vl. vl\<lparr>vol_building := True\<rparr>))
              opl ov (\<lambda>vl. vl\<lparr>vol_in_use := vol_in_use vl + 1\<rparr>)
        | Some q \<Rightarrow>
            upd_pool
              (upd_vol
                 (upd_vol
                    (upd_pool
                       (upd_pool pools1 p (\<lambda>pl. pl\<lparr>volumes := volumes pl @ [created]\<rparr>))
                       p (\<lambda>pl. pl\<lparr>asyncjobs := asyncjobs pl + 1\<rparr>))
                    p (length (volumes (pools1 ! p))) (\<lambda>vl. vl\<lparr>vol_building := True\<rparr>))
                 opl ov (\<lambda>vl. vl\<lparr>vol_in_use := vol_in_use vl + 1\<rparr>))
              q (\<lambda>pl. pl\<lparr>asyncjobs := asyncjobs pl + 1\<rparr>))"
  shows "volumes (building ! p) ! length (volumes (pools1 ! p)) = created\<lparr>vol_building := True\<rparr>"
    and "volumes
           (upd_vol
              (upd_vol building opl ov (\<lambda>vl. vl\<lparr>vol_in_use := vol_in_use vl - 1\<rparr>))
              p (length (volumes (pools1 ! p))) (\<lambda>vl. vl\<lparr>vol_building := False\<rparr>) ! p)
           ! length (volumes (pools1 ! p)) = created\<lparr>vol_building := False\<rparr>"
    and "(case origpool of
            None \<Rightarrow>
              upd_pool
                (upd_vol
                   (upd_vol building opl ov (\<lambda>vl. vl\<lparr>vol_in_use := vol_in_use vl - 1\<rparr>))
                   p (length (volumes (pools1 ! p))) (\<lambda>vl. vl\<lparr>vol_building := False\<rparr>))
                p (\<lambda>pl. pl\<lparr>asyncjobs := asyncjobs pl - 1\<rparr>)
          | Some q \<Rightarrow>
              upd_pool
                (upd_pool
                   (upd_vol
                      (upd_vol building opl ov (\<lambda>vl. vl\<lparr>vol_in_use := vol_in_use vl - 1\<rparr>))
                      p (length (volumes (pools1 ! p))) (\<lambda>vl. vl\<lparr>vol_building := False\<rparr>))
                   p (\<lambda>pl. pl\<lparr>asyncjobs := asyncjobs pl - 1\<rparr>))
                q (\<lambda>pl. pl\<lparr>asyncjobs := asyncjobs pl - 1\<rparr>))
         = upd_pool pools1 p
             (\<lambda>pl. pl\<lparr>volumes := volumes pl @ [created\<lparr>vol_building := False\<rparr>]\<rparr>)"
proof -
  show "volumes (building ! p) ! length (volumes (pools1 ! p)) = created\<lparr>vol_building := True\<rparr>"
  proof (cases origpool)
    case None
    with opl have "opl = p" by simp
    with None p ov show ?thesis
      by (simp add: b upd_vol_def upd_pool_def nth_append)
  next
    case (Some q)
    with opl np have "opl = q" "q \<noteq> p" by auto
    with Some p o ov show ?thesis
      by (simp add: b upd_vol_def upd_pool_def nth_append)
  qed
next
  show "volumes
           (upd_vol
              (upd_vol building opl ov (\<lambda>vl. vl\<lparr>vol_in_use := vol_in_use vl - 1\<rparr>))
              p (length (volumes (pools1 ! p))) (\<lambda>vl. vl\<lparr>vol_building := False\<rparr>) ! p)
           ! length (volumes (pools1 ! p)) = created\<lparr>vol_building := False\<rparr>"
  proof (cases origpool)
    case None
    with opl have "opl = p" by simp
    with None p ov show ?thesis
      by (simp add: b upd_vol_def upd_pool_def nth_append)
  next
    case (Some q)
    with opl np have "opl = q" "q \<noteq> p" by auto
    with Some p o ov show ?thesis
      by (simp add: b upd_vol_def upd_pool_def nth_append)
  qed
next
  show "(case origpool of
            None \<Rightarrow>
              upd_pool
                (upd_vol
                   (upd_vol building opl ov (\<lambda>vl. vl\<lparr>vol_in_use := vol_in_use vl - 1\<rparr>))
                   p (length (volumes (pools1 ! p))) (\<lambda>vl. vl\<lparr>vol_building := False\<rparr>))
                p (\<lambda>pl. pl\<lparr>asyncjobs := asyncjobs pl - 1\<rparr>)
          | Some q \<Rightarrow>
              upd_pool
                (upd_pool
                   (upd_vol
                      (upd_vol building opl ov (\<lambda>vl. vl\<lparr>vol_in_use := vol_in_use vl - 1\<rparr>))
                      p (length (volumes (pools1 ! p))) (\<lambda>vl. vl\<lparr>vol_building := False\<rparr>))
                   p (\<lambda>pl. pl\<lparr>asyncjobs := asyncjobs pl - 1\<rparr>))
                q (\<lambda>pl. pl\<lparr>asyncjobs := asyncjobs pl - 1\<rparr>))
         = upd_pool pools1 p
             (\<lambda>pl. pl\<lparr>volumes := volumes pl @ [created\<lparr>vol_building := False\<rparr>]\<rparr>)"
  proof (cases origpool)
    case None
    with opl have "opl = p" by simp
    with None p ov show ?thesis
      by (simp add: b upd_vol_def upd_pool_def nth_append list_update_append)
  next
    case (Some q)
    with opl np have "opl = q" "q \<noteq> p" by auto
    with Some p o ov show ?thesis
      by (auto simp: b upd_vol_def upd_pool_def nth_append list_update_append
          list_eq_iff_nth_eq nth_list_update)
  qed
qed

lemma find_vol_Some:
  "virStorageVolDefFindByName pool n = Some ov \<Longrightarrow> ov < length (volumes pool)"
  by (auto simp: virStorageVolDefFindByName_def dest!: find_first_index_Some)

lemma find_pool_name_Some:
  "virStoragePoolObjFindByName pools n = Some q \<Longrightarrow> q < length pools"
  by (auto simp: virStoragePoolObjFindByName_def dest!: find_first_index_Some)

lemma storageVolCreateXMLFrom_to_build:
  assumes "virCheckFlags VIR_STORAGE_VOL_CREATE_PREALLOC_METADATA flags"
    and "virStoragePoolObjFindByUUID pools (sp_uuid obj) = Some p"
    and "origpool = (if sp_name obj \<noteq> sv_pool vobj
                     then virStoragePoolObjFindByName pools (sv_pool vobj) else None)"
    and "origpool \<noteq> Some p"
    and "sp_name obj = sv_pool vobj \<or> origpool \<noteq> None"
    and "opl = (case origpool of None \<Rightarrow> p | Some q \<Rightarrow> q)"
    and "active (pools ! p)"
    and "active (pools ! opl)"
    and "virStorageBackendForType conn (def_type (def (pools ! p))) = Some backend"
    and "virStorageVolDefFindByName (pools ! opl) (sv_name vobj) = Some ov"
    and "virStorageVolDefParseString conn (def (pools ! p)) xmldesc = Some newvol"
    and "\<not> ensureACL conn VolCreateXMLFrom < 0"
    and "virStorageVolDefFindByName (pools ! p) (vol_name newvol) = None"
    and "origvol = volumes (pools ! opl) ! ov"
  shows "storageVolCreateXMLFrom conn pools obj xmldesc vobj flags =
         storageVolCreateXMLFrom_build backend pools p origpool opl ov
           (newvol\<lparr>vol_capacity := max (vol_capacity newvol) (vol_capacity origvol),
                   vol_allocation := max (vol_allocation newvol) (vol_capacity origvol)\<rparr>)
           flags"
proof -
  have act: "\<not> (case origpool of None \<Rightarrow> False | Some q \<Rightarrow> \<not> active (pools ! q))"
    using assms(6,8) by (simp split: option.splits)
  have found: "\<not> (sp_name obj \<noteq> sv_pool vobj \<and> origpool = None)"
    using assms(5) by auto
  show ?thesis
    unfolding storageVolCreateXMLFrom_def
    using assms(1,2,4,7,9-13) act found
    by (simp add: Let_def assms(3)[symmetric] assms(6)[symmetric] assms(14)[symmetric])
       (auto simp: max_def intro!: arg_cong [where f = "\<lambda>v. storageVolCreateXMLFrom_build backend pools p origpool opl ov v flags"])
qed

text \<open>
  Claim C10: \<^verbatim>\<open>storageVolCreateXMLFrom\<close> raises a requested capacity below the source
  volume's capacity to the source's capacity, and a requested allocation below the
  source's capacity to the source's capacity, before anything is built; the caller's
  smaller values are not used. When the checks pass and the backend calls succeed, the
  definition handed to \<open>createVol\<close> carries the raised sizes, \<open>buildVolFrom\<close> receives
  what \<open>createVol\<close> made of it (marked as building), that volume is the one appended to
  the pool's list, and the pool's allocation and available move by its allocation.
\<close>

theorem storageVolCreateXMLFrom_raises_sizes:
  assumes c1: "virCheckFlags VIR_STORAGE_VOL_CREATE_PREALLOC_METADATA flags"
    and c2: "virStoragePoolObjFindByUUID pools (sp_uuid obj) = Some p"
    and c3: "origpool = (if sp_name obj \<noteq> sv_pool vobj
                     then virStoragePoolObjFindByName pools (sv_pool vobj) else None)"
    and c4: "origpool \<noteq> Some p"
    and c5: "sp_name obj = sv_pool vobj \<or> origpool \<noteq> None"
    and c6: "opl = (case origpool of None \<Rightarrow> p | Some q \<Rightarrow> q)"
    and c7: "active (pools ! p)"
    and c8: "active (pools ! opl)"
    and c9: "virStorageBackendForType conn (def_type (def (pools ! p))) = Some backend"
    and c10: "virStorageVolDefFindByName (pools ! opl) (sv_name vobj) = Some ov"
    and c11: "virStorageVolDefParseString conn (def (pools ! p)) xmldesc = Some newvol"
    and c12: "\<not> ensureACL conn VolCreateXMLFrom < 0"
    and c13: "virStorageVolDefFindByName (pools ! p) (vol_name newvol) = None"
    and c14: "origvol = volumes (pools ! opl) ! ov"
    and b1: "buildVolFrom backend = Some bvf"
    and b2: "\<not> vol_building origvol"
    and b3: "(rr, pools1) =
               (case refreshVol backend of
                  None \<Rightarrow> (0, pools)
                | Some rv \<Rightarrow>
                    (case rv (pools ! p) origvol of
                       (r, origvol1) \<Rightarrow> (r, upd_vol pools opl ov (\<lambda>_. origvol1))))"
    and b4: "\<not> rr < 0"
    and b5: "createVol backend = Some cv"
    and b6: "cv (pools1 ! p)
               (newvol\<lparr>vol_capacity := max (vol_capacity newvol) (vol_capacity origvol),
                       vol_allocation := max (vol_allocation newvol) (vol_capacity origvol),
                       vol_key := None\<rparr>) = (r, created)"
    and b7: "\<not> r < 0"
    and b8: "started =
               upd_vol
                 (upd_vol
                    (upd_pool
                       (upd_pool pools1 p (\<lambda>pl. pl\<lparr>volumes := volumes pl @ [created]\<rparr>))
                       p (\<lambda>pl. pl\<lparr>asyncjobs := asyncjobs pl + 1\<rparr>))
                    p (length (volumes (pools1 ! p))) (\<lambda>vl. vl\<lparr>vol_building := True\<rparr>))
                 opl ov (\<lambda>vl. vl\<lparr>vol_in_use := vol_in_use vl + 1\<rparr>)"
    and b9: "building =
               (case origpool of
                  None \<Rightarrow> started
                | Some q \<Rightarrow> upd_pool started q (\<lambda>pl. pl\<lparr>asyncjobs := asyncjobs pl + 1\<rparr>))"
    and b10: "\<not> bvf (building ! p) (volumes (building ! p) ! length (volumes (pools1 ! p)))
                   (volumes (building ! opl) ! ov) flags < 0"
  shows "storageVolCreateXMLFrom conn pools obj xmldesc vobj flags =
           Some (Inr (virGetStorageVol (pools ! p) created),
                 upd_pool pools1 p
                   (\<lambda>pl. pl\<lparr>volumes := volumes pl @ [created\<lparr>vol_building := False\<rparr>],
                            def := (def pl)
                              \<lparr>def_allocation := def_allocation (def pl) + vol_allocation created,
                               def_available := def_available (def pl) - vol_allocation created\<rparr>\<rparr>))
       \<and> volumes (building ! p) ! length (volumes (pools1 ! p)) = created\<lparr>vol_building := True\<rparr>
       \<and> def (pools1 ! p) = def (pools ! p)
       \<and> volumes (snd (the (storageVolCreateXMLFrom conn pools obj xmldesc vobj flags)) ! p)
           = volumes (pools1 ! p) @ [created\<lparr>vol_building := False\<rparr>]
       \<and> def_allocation
             (def (snd (the (storageVolCreateXMLFrom conn pools obj xmldesc vobj flags)) ! p))
           = def_allocation (def (pools ! p)) + vol_allocation created
       \<and> def_available
             (def (snd (the (storageVolCreateXMLFrom conn pools obj xmldesc vobj flags)) ! p))
           = def_available (def (pools ! p)) - vol_allocation created"
proof -
  from virStoragePoolObjFindByUUID_Some [OF c2] have p: "p < length pools" by simp
  have o: "opl < length pools"
  proof (cases origpool)
    case None with c6 p show ?thesis by simp
  next
    case (Some q)
    with c3 have "virStoragePoolObjFindByName pools (sv_pool vobj) = Some q"
      by (simp split: if_splits)
    from find_pool_name_Some [OF this] Some c6 show ?thesis by simp
  qed
  from find_vol_Some [OF c10] have ov: "ov < length (volumes (pools ! opl))" .
  have len1: "length pools1 = length pools"
    using b3 by (auto simp: upd_vol_def upd_pool_def split: option.splits prod.splits)
  have def1: "def (pools1 ! p) = def (pools ! p)"
    using b3 p o by (auto simp: upd_vol_def upd_pool_def nth_list_update
        split: option.splits prod.splits)
  have vols1: "length (volumes (pools1 ! opl)) = length (volumes (pools ! opl))"
    using b3 o by (auto simp: upd_vol_def upd_pool_def nth_list_update
        split: option.splits prod.splits)
  have b9': "building =
       (case origpool of
          None \<Rightarrow>
            upd_vol
              (upd_vol
                 (upd_pool
                    (upd_pool pools1 p (\<lambda>pl. pl\<lparr>volumes := volumes pl @ [created]\<rparr>))
                    p (\<lambda>pl. pl\<lparr>asyncjobs := asyncjobs pl + 1\<rparr>))
                 p (length (volumes (pools1 ! p))) (\<lambda>vl. vl\<lparr>vol_building := True\<rparr>))
              opl ov (\<lambda>vl. vl\<lparr>vol_in_use := vol_in_use vl + 1\<rparr>)
        | Some q \<Rightarrow>
            upd_pool
              (upd_vol
                 (upd_vol
                    (upd_pool
                       (upd_pool pools1 p (\<lambda>pl. pl\<lparr>volumes := volumes pl @ [created]\<rparr>))
                       p (\<lambda>pl. pl\<lparr>asyncjobs := asyncjobs pl + 1\<rparr>))
                    p (length (volumes (pools1 ! p))) (\<lambda>vl. vl\<lparr>vol_building := True\<rparr>))
                 opl ov (\<lambda>vl. vl\<lparr>vol_in_use := vol_in_use vl + 1\<rparr>))
              q (\<lambda>pl. pl\<lparr>asyncjobs := asyncjobs pl + 1\<rparr>))"
    unfolding b9 b8 by (simp split: option.splits)
  have p1: "p < length pools1" and o1: "opl < length pools1"
    and ov1: "ov < length (volumes (pools1 ! opl))"
    using p o ov len1 vols1 by simp_all
  note st = clone_states [OF p1 o1 ov1 c4 c6 b9']
  note tb = storageVolCreateXMLFrom_to_build
              [OF c1 c2 c3 c4 c5 c6 c7 c8 c9 c10 c11 c12 c13 c14]
  have name: "virGetStorageVol
                (upd_pool pools1 p (\<lambda>pl. pl\<lparr>volumes := volumes pl @ [created]\<rparr>) ! p) created
              = virGetStorageVol (pools ! p) created"
    using p1 def1 by (simp add: virGetStorageVol_def upd_pool_def)
  have run: "storageVolCreateXMLFrom conn pools obj xmldesc vobj flags =
           Some (Inr (virGetStorageVol (pools ! p) created),
                 upd_pool
                   (upd_pool pools1 p
                      (\<lambda>pl. pl\<lparr>volumes := volumes pl @ [created\<lparr>vol_building := False\<rparr>]\<rparr>))
                   p (\<lambda>pl. pl\<lparr>def := (def pl)
                              \<lparr>def_allocation := def_allocation (def pl) + vol_allocation created,
                               def_available := def_available (def pl) - vol_allocation created\<rparr>\<rparr>))"
  proof -
    have f2: "vol_building origvol = False" using b2 by simp
    have f4: "(rr < 0) = False" using b4 by simp
    have f7: "(r < 0) = False" using b7 by simp
    have f10: "(bvf (building ! p) (volumes (building ! p) ! length (volumes (pools1 ! p)))
                   (volumes (building ! opl) ! ov) flags < 0) = False"
      using b10 by simp
    have f10': "(bvf (building ! p) (created\<lparr>vol_building := True\<rparr>)
                   (volumes (building ! opl) ! ov) flags < 0) = False"
      using b10 by (simp add: st(1))
    show ?thesis
      unfolding tb storageVolCreateXMLFrom_build_def Let_def c14 [symmetric]
      apply (simp only: b1 option.case f2 if_False b3 [symmetric] prod.case f4 b5 b6 f7
          b9' [symmetric] f10 f10' st name)
      apply (simp add: upd_pool_def p1)
      done
  qed
  show ?thesis
    unfolding run using st(1) def1 p1
    by (simp add: upd_pool_def)
qed

theorem storageVolCreateXMLFrom_raises_sizes_witness:
  "storageVolCreateXMLFrom (ex_conn_with ex_backend) [ex_pool] ex_pool_handle ''v2''
       ex_vol_handle 0
     = Some (Inr \<lparr>sv_pool = ''p1'', sv_name = ''v2'', sv_key = Some ''v2''\<rparr>,
             [ex_pool
                \<lparr>def := (def ex_pool)\<lparr>def_allocation := 110, def_available := 900\<rparr>,
                 volumes :=
                   [ex_vol,
                    \<lparr>vol_name = ''v2'', vol_key = Some ''v2'', vol_building = False,
                     vol_in_use = 0, vol_capacity = 100, vol_allocation = 100\<rparr>]\<rparr>])"
proof -
  let ?conn = "ex_conn_with ex_backend"
  let ?newvol = "\<lparr>vol_name = ''v2'', vol_key = None, vol_building = False, vol_in_use = 0,
                   vol_capacity = 50, vol_allocation = 5\<rparr>"
  let ?created = "\<lparr>vol_name = ''v2'', vol_key = Some ''v2'', vol_building = False,
                    vol_in_use = 0, vol_capacity = 100, vol_allocation = 100\<rparr>"
  have h1: "virCheckFlags VIR_STORAGE_VOL_CREATE_PREALLOC_METADATA 0"
    by (simp add: virCheckFlags_def)
  have h3: "None = (if sp_name ex_pool_handle \<noteq> sv_pool ex_vol_handle
                    then virStoragePoolObjFindByName [ex_pool] (sv_pool ex_vol_handle) else None)"
    by (simp add: ex_pool_handle_def ex_vol_handle_def)
  have h4: "(None :: nat option) \<noteq> Some 0" by simp
  have h5: "sp_name ex_pool_handle = sv_pool ex_vol_handle \<or> (None :: nat option) \<noteq> None"
    by (simp add: ex_pool_handle_def ex_vol_handle_def)
  have h6: "(0::nat) = (case (None :: nat option) of None \<Rightarrow> 0 | Some q \<Rightarrow> q)" by simp
  have h7: "active ([ex_pool] ! 0)" by (simp add: ex_pool_def)
  have h9: "virStorageBackendForType ?conn (def_type (def ([ex_pool] ! 0))) = Some ex_backend"
    by (simp add: ex_conn_with_def)
  have h10: "virStorageVolDefFindByName ([ex_pool] ! 0) (sv_name ex_vol_handle) = Some 0"
    by (simp add: virStorageVolDefFindByName_def ex_pool_def ex_vol_def ex_vol_handle_def)
  have h11: "virStorageVolDefParseString ?conn (def ([ex_pool] ! 0)) ''v2'' = Some ?newvol"
    by (simp add: ex_conn_with_def)
  have h12: "\<not> ensureACL ?conn VolCreateXMLFrom < 0" by (simp add: ex_conn_with_def)
  have h13: "virStorageVolDefFindByName ([ex_pool] ! 0) (vol_name ?newvol) = None"
    by (simp add: virStorageVolDefFindByName_def ex_pool_def ex_vol_def)
  have h14: "ex_vol = volumes ([ex_pool] ! 0) ! 0" by (simp add: ex_pool_def)
  have b1: "buildVolFrom ex_backend = Some (the (buildVolFrom ex_backend))"
    by (simp add: ex_backend_def)
  have b2: "\<not> vol_building ex_vol" by (simp add: ex_vol_def)
  have b3: "(0, [ex_pool]) =
              (case refreshVol ex_backend of
                 None \<Rightarrow> (0, [ex_pool])
               | Some rv \<Rightarrow>
                   (case rv ([ex_pool] ! 0) ex_vol of
                      (r, origvol1) \<Rightarrow> (r, upd_vol [ex_pool] 0 0 (\<lambda>_. origvol1))))"
    by (simp add: ex_backend_def)
  have b4: "\<not> (0::int) < 0" by simp
  have b5: "createVol ex_backend = Some (the (createVol ex_backend))"
    by (simp add: ex_backend_def)
  have b6: "the (createVol ex_backend) ([ex_pool] ! 0)
              (?newvol\<lparr>vol_capacity := max (vol_capacity ?newvol) (vol_capacity ex_vol),
                        vol_allocation := max (vol_allocation ?newvol) (vol_capacity ex_vol),
                        vol_key := None\<rparr>) = (0, ?created)"
    by (simp add: ex_backend_def ex_vol_def)
  have b10: "\<not> the (buildVolFrom ex_backend) pl nv og 0 < 0" for pl nv og
    by (simp add: ex_backend_def)
  from storageVolCreateXMLFrom_raises_sizes
         [OF h1 ex_find_uuid h3 h4 h5 h6 h7 h7 h9 h10 h11 h12 h13 h14 b1 b2 b3 b4 b5 b6 b4
             refl refl b10]
  show ?thesis
    by (simp add: upd_pool_def virGetStorageVol_def ex_pool_def ex_vol_def)
qed


section \<open>Uniqueness of pools in the store\<close>

lemma distinct_remove_nth: "distinct ys \<Longrightarrow> distinct (take p ys @ drop (Suc p) ys)"
  by (simp add: set_take_disj_set_drop_if_distinct)

lemma unique_pools_remove:
  "unique_pools pools \<Longrightarrow> unique_pools (virStoragePoolObjRemove pools p)"
  by (simp add: unique_pools_def virStoragePoolObjRemove_def take_map [symmetric]
      drop_map [symmetric] distinct_remove_nth del: distinct_append)

lemma store_ok_remove: "store_ok pools \<Longrightarrow> store_ok (virStoragePoolObjRemove pools p)"
proof -
  assume ok: "store_ok pools"
  then have "list_all same_identity (virStoragePoolObjRemove pools p)"
    by (auto simp: store_ok_def virStoragePoolObjRemove_def list_all_iff
        dest: in_set_takeD in_set_dropD)
  with ok show ?thesis by (simp add: store_ok_def unique_pools_remove)
qed

lemma store_ok_update:
  assumes "store_ok pools"
    and "def_name (def x) = def_name (def (pools ! p))"
    and "def_uuid (def x) = def_uuid (def (pools ! p))"
    and "same_identity x"
  shows "store_ok (pools[p := x])"
proof (cases "p < length pools")
  case True
  have n: "map (\<lambda>p. def_name (def p)) (pools[p := x]) = map (\<lambda>p. def_name (def p)) pools"
    using True assms(2) by (simp add: map_update list_update_same_conv)
  have u: "map (\<lambda>p. def_uuid (def p)) (pools[p := x]) = map (\<lambda>p. def_uuid (def p)) pools"
    using True assms(3) by (simp add: map_update list_update_same_conv)
  have "list_all same_identity (pools[p := x])"
    using assms(1,4) set_update_subset_insert [of pools p x]
    by (auto simp: store_ok_def list_all_iff)
  with assms(1) n u show ?thesis by (simp add: store_ok_def unique_pools_def)
next
  case False
  with assms(1) show ?thesis by (simp add: list_update_beyond)
qed

lemma store_ok_append:
  assumes "store_ok pools"
    and "\<not> list_ex (\<lambda>p. def_name (def p) = def_name d \<or> def_uuid (def p) = def_uuid d) pools"
    and "def_name (def x) = def_name d" and "def_uuid (def x) = def_uuid d"
    and "same_identity x"
  shows "store_ok (pools @ [x])"
  using assms by (auto simp: store_ok_def unique_pools_def list_ex_iff)


lemma store_ok_modify:
  assumes "store_ok pools"
    and "\<And>q. same_identity q \<Longrightarrow>
           same_identity (f q) \<and> def_name (def (f q)) = def_name (def q)
           \<and> def_uuid (def (f q)) = def_uuid (def q)"
  shows "store_ok (pools[p := f (pools ! p)])"
proof (cases "p < length pools")
  case True
  with assms(1) have "same_identity (pools ! p)" by (simp add: store_ok_def list_all_length)
  from assms(2) [OF this] show ?thesis by (intro store_ok_update [OF assms(1)]) simp_all
next
  case False
  with assms(1) show ?thesis by (simp add: list_update_beyond)
qed

lemma assign_then_remove:
  "virStoragePoolObjRemove (pools @ [x]) (length pools) = pools"
  by (simp add: virStoragePoolObjRemove_def)

lemma assign_then_update: "(pools @ [x])[length pools := y] = pools @ [y]"
  by simp

lemma store_ok_DefineXML:
  assumes "store_ok pools"
  shows "store_ok (snd (storagePoolDefineXML conn pools xml flags))"
  using assms
  by (auto simp: storagePoolDefineXML_def virStoragePoolObjIsDuplicate_def
      virStoragePoolObjAssignDef_def assign_then_remove same_identity_def
      split: option.splits if_splits prod.splits
      intro!: store_ok_append)

lemma store_ok_CreateXML:
  assumes "store_ok pools"
  shows "store_ok (snd (storagePoolCreateXML conn pools xml flags))"
  using assms
  by (auto simp: storagePoolCreateXML_def virStoragePoolObjIsDuplicate_def
      virStoragePoolObjAssignDef_def assign_then_remove same_identity_def apply_refreshed_def
      split: option.splits if_splits prod.splits
      intro!: store_ok_append)

lemma store_ok_refreshed:
  assumes "store_ok pools"
  shows "store_ok (pools[p := apply_refreshed (pools ! p) rf])"
    and "store_ok (pools[p := (apply_refreshed (pools ! p) rf)\<lparr>active := a\<rparr>])"
    and "store_ok (pools[p := (apply_refreshed (virStoragePoolObjClearVols (pools ! p)) rf)
                               \<lparr>active := a\<rparr>])"
    and "store_ok (pools[p := apply_refreshed (virStoragePoolObjClearVols (pools ! p)) rf])"
    and "store_ok (pools[p := (virStoragePoolObjClearVols (pools ! p))\<lparr>active := a\<rparr>])"
  by (rule store_ok_modify [OF assms, where f = "\<lambda>q. apply_refreshed q rf"],
      simp add: apply_refreshed_def same_identity_def split: option.splits)
     (rule store_ok_modify [OF assms, where f = "\<lambda>q. (apply_refreshed q rf)\<lparr>active := a\<rparr>"],
      simp add: apply_refreshed_def same_identity_def split: option.splits,
      rule store_ok_modify [OF assms, where f = "\<lambda>q. (apply_refreshed (virStoragePoolObjClearVols q) rf)\<lparr>active := a\<rparr>"],
      simp add: apply_refreshed_def virStoragePoolObjClearVols_def same_identity_def split: option.splits,
      rule store_ok_modify [OF assms, where f = "\<lambda>q. apply_refreshed (virStoragePoolObjClearVols q) rf"],
      simp add: apply_refreshed_def virStoragePoolObjClearVols_def same_identity_def split: option.splits,
      rule store_ok_modify [OF assms, where f = "\<lambda>q. (virStoragePoolObjClearVols q)\<lparr>active := a\<rparr>"],
      simp add: virStoragePoolObjClearVols_def same_identity_def split: option.splits)

lemma store_ok_promote:
  assumes "store_ok pools" and "p < length pools"
    and "newDef (virStoragePoolObjClearVols (pools ! p)) = Some nd"
  shows "store_ok (pools[p := (virStoragePoolObjClearVols (pools ! p))
                            \<lparr>active := False, def := nd, newDef := None\<rparr>])"
proof -
  from assms have "same_identity (pools ! p)" by (simp add: store_ok_def list_all_length)
  with assms(3) show ?thesis
    by (intro store_ok_update [OF assms(1)])
       (simp_all add: same_identity_def virStoragePoolObjClearVols_def)
qed

lemma store_ok_Create:
  assumes "store_ok pools"
  shows "store_ok (snd (storagePoolCreate conn pools obj flags))"
  using assms
  by (auto simp: storagePoolCreate_def store_ok_refreshed
      split: option.splits if_splits prod.splits)

lemma store_ok_Undefine:
  assumes "store_ok pools"
  shows "store_ok (snd (storagePoolUndefine conn pools obj))"
  using assms
  by (auto simp: storagePoolUndefine_def store_ok_remove split: option.splits if_splits)

lemma store_ok_Destroy:
  assumes "store_ok pools"
  shows "store_ok (snd (storagePoolDestroy conn pools obj))"
  using assms
  by (auto simp: storagePoolDestroy_def Let_def store_ok_remove store_ok_refreshed
      store_ok_promote
      dest: virStoragePoolObjFindByUUID_Some
      split: option.splits if_splits)

lemma store_ok_Refresh:
  assumes "store_ok pools"
  shows "store_ok (snd (storagePoolRefresh conn pools obj flags))"
  using assms
  by (auto simp: storagePoolRefresh_def Let_def store_ok_remove store_ok_refreshed
      split: option.splits if_splits prod.splits)

lemma store_ok_step: "store_ok pools \<Longrightarrow> store_ok (pool_step conn pools x)"
  by (cases x)
     (simp_all add: store_ok_DefineXML store_ok_CreateXML store_ok_Create store_ok_Destroy
        store_ok_Undefine store_ok_Refresh)

lemma store_ok_run: "store_ok pools \<Longrightarrow> store_ok (pool_run conn pools ops)"
  unfolding pool_run_def
  by (induction ops arbitrary: pools) (simp_all add: store_ok_step)

lemma duplicate_rejected_CreateXML:
  assumes "virStoragePoolDefParseString conn xml = Some d"
    and "list_ex (\<lambda>p. def_name (def p) = def_name d \<or> def_uuid (def p) = def_uuid d
                       \<or> sourceMatches conn (def p) d) pools"
  shows "isl (fst (storagePoolCreateXML conn pools xml flags))
       \<and> snd (storagePoolCreateXML conn pools xml flags) = pools"
  using assms
  by (auto simp: storagePoolCreateXML_def virStoragePoolObjIsDuplicate_def
      virStoragePoolSourceFindDuplicate_def list_ex_iff)

lemma duplicate_rejected_DefineXML:
  assumes "virStoragePoolDefParseString conn xml = Some d"
    and "list_ex (\<lambda>p. def_name (def p) = def_name d \<or> def_uuid (def p) = def_uuid d
                       \<or> sourceMatches conn (def p) d) pools"
  shows "isl (fst (storagePoolDefineXML conn pools xml flags))
       \<and> snd (storagePoolDefineXML conn pools xml flags) = pools"
  using assms
  by (auto simp: storagePoolDefineXML_def virStoragePoolObjIsDuplicate_def
      virStoragePoolSourceFindDuplicate_def list_ex_iff)

lemma ex_store_ok: "store_ok [ex_pool]"
  by (simp add: store_ok_def unique_pools_def same_identity_def ex_pool_def)

text \<open>
  Claim C7: through every sequence of define, create, start, destroy, undefine and
  refresh calls, from the empty store or from any well-formed one, the store never holds
  two pools with the same name or the same UUID;
  \<^verbatim>\<open>storagePoolCreateXML\<close> and \<^verbatim>\<open>storagePoolDefineXML\<close> fail, without inserting
  anything, on a definition whose name, UUID or source duplicates that of a pool in the
  store.
\<close>

theorem pool_store_unique:
  assumes "store_ok pools"
  shows "unique_pools (pool_run conn pools ops)
       \<and> store_ok (pool_run conn pools ops)
       \<and> unique_pools (pool_run conn [] ops)
       \<and> (virStoragePoolDefParseString conn xml = Some d
           \<and> list_ex (\<lambda>p. def_name (def p) = def_name d \<or> def_uuid (def p) = def_uuid d
                            \<or> sourceMatches conn (def p) d) pools
          \<longrightarrow> isl (fst (storagePoolCreateXML conn pools xml flags))
              \<and> snd (storagePoolCreateXML conn pools xml flags) = pools
              \<and> isl (fst (storagePoolDefineXML conn pools xml flags))
              \<and> snd (storagePoolDefineXML conn pools xml flags) = pools)"
proof -
  from store_ok_run [OF assms] have ok: "store_ok (pool_run conn pools ops)" .
  then have "unique_pools (pool_run conn pools ops)" by (simp add: store_ok_def)
  moreover have "store_ok []" by (simp add: store_ok_def unique_pools_def)
  from store_ok_run [OF this] have "unique_pools (pool_run conn [] ops)"
    by (simp add: store_ok_def)
  ultimately show ?thesis
    using ok duplicate_rejected_CreateXML [of conn xml d pools flags]
      duplicate_rejected_DefineXML [of conn xml d pools flags]
    by blast
qed

theorem pool_store_unique_witness:
  "store_ok [ex_pool]
   \<and> unique_pools (pool_run (ex_conn_with ex_backend) [ex_pool]
        [DefineXML ''p2'' 0, CreateXML ''p1'' 0, Create \<lparr>sp_name = ''p2'', sp_uuid = [112, 50]\<rparr> 0,
         Destroy ex_pool_handle, Undefine ex_pool_handle])
   \<and> snd (storagePoolCreateXML (ex_conn_with ex_backend) [ex_pool] ''p1'' 0) = [ex_pool]
   \<and> snd (storagePoolDefineXML (ex_conn_with ex_backend) [ex_pool] ''p1'' 0) = [ex_pool]"
proof -
  let ?d = "\<lparr>def_name = ''p1'', def_uuid = map (of_nat \<circ> of_char) ''p1'', def_type = 0,
              def_capacity = 0, def_allocation = 0, def_available = 0\<rparr> :: virStoragePoolDef"
  have h1: "virStoragePoolDefParseString (ex_conn_with ex_backend) ''p1'' = Some ?d"
    by (simp add: ex_conn_with_def)
  have h2: "list_ex (\<lambda>p. def_name (def p) = def_name ?d \<or> def_uuid (def p) = def_uuid ?d
                      \<or> sourceMatches (ex_conn_with ex_backend) (def p) ?d) [ex_pool]"
    by (simp add: ex_pool_def)
  from pool_store_unique [OF ex_store_ok, of "ex_conn_with ex_backend" _ "''p1''" ?d 0] h1 h2
    ex_store_ok
  show ?thesis by blast
qed

section \<open>A refresh that fails\<close>

lemma removed_identity_gone:
  assumes "distinct (map f xs)" and "p < length xs"
  shows "\<not> list_ex (\<lambda>q. f q = f (xs ! p)) (take p xs @ drop (Suc p) xs)"
proof -
  have "map f xs = map f (take p xs) @ f (xs ! p) # map f (drop (Suc p) xs)"
    using assms(2) by (metis id_take_nth_drop list.simps(9) map_append)
  with assms(1) have "distinct (map f (take p xs) @ f (xs ! p) # map f (drop (Suc p) xs))"
    by simp
  then show ?thesis by (force simp: list_ex_iff image_iff)
qed

lemma find_first_index_map: "find_first_index P xs = find_first_index (\<lambda>b. b) (map P xs)"
  by (induction xs) auto

lemma find_first_index_update:
  assumes "p < length xs" and "P x = P (xs ! p)"
  shows "find_first_index P (xs[p := x]) = find_first_index P xs"
proof -
  have "map P (xs[p := x]) = map P xs"
    using assms by (simp add: map_update list_update_same_conv)
  then show ?thesis by (metis find_first_index_map)
qed

lemma remove_updated: "virStoragePoolObjRemove (pools[p := x]) p = virStoragePoolObjRemove pools p"
  by (simp add: virStoragePoolObjRemove_def)

text \<open>
  Claim C9: when the backend's \<open>refreshPool\<close> fails during \<^verbatim>\<open>storagePoolRefresh\<close> of an
  active pool, the call fails and the pool is deactivated. A transient pool (no config
  file) is removed from the store, and a lookup by its name then reports that there is
  no such pool; a persistent pool stays in the store, inactive, under the same name and
  UUID.
\<close>

theorem storagePoolRefresh_failure:
  assumes "virCheckFlags 0 flags"
    and "virStoragePoolObjFindByUUID pools (sp_uuid obj) = Some p"
    and "\<not> ensureACL conn PoolRefresh < 0"
    and "virStorageBackendForType conn (def_type (def (pools ! p))) = Some backend"
    and "active (pools ! p)"
    and "\<not> asyncjobs (pools ! p) > 0"
    and "refreshPool backend (virStoragePoolObjClearVols (pools ! p)) = (r, rf)"
    and "r < 0"
    and "unique_pools pools"
    and "pools' = snd (storagePoolRefresh conn pools obj flags)"
  shows "isl (fst (storagePoolRefresh conn pools obj flags))
       \<and> (if configFile (pools ! p) = None
          then pools' = virStoragePoolObjRemove pools p
               \<and> length pools' + 1 = length pools
               \<and> storagePoolLookupByName conn pools' (def_name (def (pools ! p))) = Inl no_pool_name
          else pools' = pools[p := pools' ! p]
               \<and> \<not> active (pools' ! p)
               \<and> def_name (def (pools' ! p)) = def_name (def (pools ! p))
               \<and> def_uuid (def (pools' ! p)) = def_uuid (def (pools ! p))
               \<and> configFile (pools' ! p) = configFile (pools ! p)
               \<and> virStoragePoolObjFindByUUID pools' (sp_uuid obj) = Some p)"
proof -
  from virStoragePoolObjFindByUUID_Some [OF assms(2)] have p: "p < length pools" by simp
  let ?pool2 = "(apply_refreshed (virStoragePoolObjClearVols (pools ! p)) rf)\<lparr>active := False\<rparr>"
  have cf: "configFile (apply_refreshed (virStoragePoolObjClearVols (pools ! p)) rf)
              = configFile (pools ! p)"
    by (simp add: apply_refreshed_def virStoragePoolObjClearVols_def)
  have run: "storagePoolRefresh conn pools obj flags =
     (if configFile (pools ! p) = None
      then (Inl (ErrorFrom Backend), virStoragePoolObjRemove pools p)
      else (Inl (ErrorFrom Backend), pools[p := ?pool2]))"
    using assms(1-8) by (simp add: storagePoolRefresh_def Let_def cf remove_updated)
  show ?thesis
  proof (cases "configFile (pools ! p) = None")
    case True
    from assms(9) have "distinct (map (\<lambda>q. def_name (def q)) pools)"
      by (simp add: unique_pools_def)
    from removed_identity_gone [OF this p]
    have "virStoragePoolObjFindByName (virStoragePoolObjRemove pools p)
            (def_name (def (pools ! p))) = None"
      by (simp add: virStoragePoolObjFindByName_def virStoragePoolObjRemove_def
          find_first_index_None)
    moreover have "storagePoolRefresh conn pools obj flags
                     = (Inl (ErrorFrom Backend), virStoragePoolObjRemove pools p)"
      using run True by simp
    ultimately show ?thesis
      unfolding assms(10) using True p
      by (simp add: storagePoolLookupByName_def) (simp add: virStoragePoolObjRemove_def)
  next
    case False
    have "virStoragePoolObjFindByUUID (pools[p := ?pool2]) (sp_uuid obj) = Some p"
      using assms(2) p unfolding virStoragePoolObjFindByUUID_def
      by (subst find_first_index_update)
         (simp_all add: apply_refreshed_def virStoragePoolObjClearVols_def)
    moreover from False obtain y where y: "configFile (pools ! p) = Some y" by auto
    moreover have "storagePoolRefresh conn pools obj flags
                     = (Inl (ErrorFrom Backend), pools[p := ?pool2])"
      using run y by simp
    ultimately show ?thesis
      unfolding assms(10) using p
      by (simp add: apply_refreshed_def virStoragePoolObjClearVols_def)
  qed
qed

theorem storagePoolRefresh_failure_witness:
  "snd (storagePoolRefresh (ex_conn_with ex_backend_refresh_fails) [ex_pool_transient]
          ex_pool_handle 0) = []
   \<and> storagePoolLookupByName (ex_conn_with ex_backend_refresh_fails)
        (snd (storagePoolRefresh (ex_conn_with ex_backend_refresh_fails) [ex_pool_transient]
                ex_pool_handle 0)) ''p1'' = Inl no_pool_name
   \<and> \<not> active (snd (storagePoolRefresh (ex_conn_with ex_backend_refresh_fails) [ex_pool]
                       ex_pool_handle 0) ! 0)
   \<and> virStoragePoolObjFindByUUID
        (snd (storagePoolRefresh (ex_conn_with ex_backend_refresh_fails) [ex_pool]
                ex_pool_handle 0)) [1] = Some 0"
proof -
  let ?conn = "ex_conn_with ex_backend_refresh_fails"
  let ?rf = "\<lparr>r_volumes = [], r_capacity = 0, r_allocation = 0, r_available = 0\<rparr>"
  have h1: "virCheckFlags 0 0" by (simp add: virCheckFlags_def)
  have h3: "\<not> ensureACL ?conn PoolRefresh < 0" by (simp add: ex_conn_with_def)
  have h8: "(-1::int) < 0" by simp
  have t2: "virStoragePoolObjFindByUUID [ex_pool_transient] (sp_uuid ex_pool_handle) = Some 0"
    by (simp add: virStoragePoolObjFindByUUID_def ex_pool_transient_def ex_pool_def
        ex_pool_handle_def)
  have t4: "virStorageBackendForType ?conn (def_type (def ([ex_pool_transient] ! 0)))
              = Some ex_backend_refresh_fails"
    by (simp add: ex_conn_with_def)
  have t5: "active ([ex_pool_transient] ! 0)" by (simp add: ex_pool_transient_def ex_pool_def)
  have t6: "\<not> asyncjobs ([ex_pool_transient] ! 0) > 0"
    by (simp add: ex_pool_transient_def ex_pool_def)
  have t7: "refreshPool ex_backend_refresh_fails
              (virStoragePoolObjClearVols ([ex_pool_transient] ! 0)) = (-1, ?rf)"
    by (simp add: ex_backend_refresh_fails_def)
  have t9: "unique_pools [ex_pool_transient]" by (simp add: unique_pools_def)
  have p4: "virStorageBackendForType ?conn (def_type (def ([ex_pool] ! 0)))
              = Some ex_backend_refresh_fails"
    by (simp add: ex_conn_with_def)
  have p5: "active ([ex_pool] ! 0)" by (simp add: ex_pool_def)
  have p6: "\<not> asyncjobs ([ex_pool] ! 0) > 0" by (simp add: ex_pool_def)
  have p7: "refreshPool ex_backend_refresh_fails (virStoragePoolObjClearVols ([ex_pool] ! 0))
              = (-1, ?rf)"
    by (simp add: ex_backend_refresh_fails_def)
  have p9: "unique_pools [ex_pool]" by (simp add: unique_pools_def)
  have tc: "configFile ex_pool_transient = None" by (simp add: ex_pool_transient_def)
  have tn: "def_name (def ex_pool_transient) = ''p1''"
    by (simp add: ex_pool_transient_def ex_pool_def)
  have tr: "virStoragePoolObjRemove [ex_pool_transient] 0 = []"
    by (simp add: virStoragePoolObjRemove_def)
  have pc: "configFile ex_pool = Some ''/etc/p1.xml''" by (simp add: ex_pool_def)
  have pu: "sp_uuid ex_pool_handle = [1]" by (simp add: ex_pool_handle_def)
  from storagePoolRefresh_failure [OF h1 t2 h3 t4 t5 t6 t7 h8 t9 refl]
    storagePoolRefresh_failure [OF h1 ex_find_uuid h3 p4 p5 p6 p7 h8 p9 refl]
  show ?thesis
    by (simp add: tc tn tr pc pu storagePoolLookupByName_def virStoragePoolObjFindByName_def)
qed


section \<open>One step of the backing chain walk\<close>

text \<open>
  The function is partial, so each fact unfolds its defining equation once, at a source
  for which the steps before the recursive call are known.
\<close>

lemma recurse_unsupported:
  assumes "\<not> virStorageFileSupportsBackingChainTraversal env None src"
  shows "virStorageFileGetMetadataRecurse env src uid gid allow_probe cycle = Some (0, src, [])"
  using assms by (subst virStorageFileGetMetadataRecurse.simps) simp

lemma recurse_access_fails:
  assumes "virStorageFileSupportsBackingChainTraversal env None src"
    and "virStorageFileInitAs env src uid gid = Inr d"
    and "virStorageFileAccess (Some d) src F_OK < 0"
  shows "virStorageFileGetMetadataRecurse env src uid gid allow_probe cycle
           = Some (-1, src, [cannot_access])"
  using assms by (subst virStorageFileGetMetadataRecurse.simps) simp

lemma recurse_cycle:
  assumes "virStorageFileSupportsBackingChainTraversal env None src"
    and "virStorageFileInitAs env src uid gid = Inr d"
    and "\<not> virStorageFileAccess (Some d) src F_OK < 0"
    and "virStorageFileGetUniqueIdentifier (Some d) src = Inr uniqueName"
    and "uniqueName \<in> cycle"
  shows "virStorageFileGetMetadataRecurse env src uid gid allow_probe cycle
           = Some (-1, src, [self_referential])"
  using assms by (subst virStorageFileGetMetadataRecurse.simps) simp

lemma recurse_terminal:
  assumes "virStorageFileSupportsBackingChainTraversal env None src"
    and "virStorageFileInitAs env src uid gid = Inr d"
    and "\<not> virStorageFileAccess (Some d) src F_OK < 0"
    and "virStorageFileGetUniqueIdentifier (Some d) src = Inr uniqueName"
    and "uniqueName \<notin> cycle"
    and "virStorageFileReadHeader (Some d) src VIR_STORAGE_MAX_HEADER = (headerLen, buf, errs)"
    and "\<not> headerLen < 0"
    and "virStorageFileGetMetadataInternal env src buf headerLen = (r, src1, backingFormat)"
    and "\<not> r < 0"
    and "src_backingStoreRaw src1 = None"
  shows "virStorageFileGetMetadataRecurse env src uid gid allow_probe cycle = Some (0, src1, [])"
  using assms by (subst virStorageFileGetMetadataRecurse.simps) simp

lemma recurse_descend:
  assumes "virStorageFileSupportsBackingChainTraversal env None src"
    and "virStorageFileInitAs env src uid gid = Inr d"
    and "\<not> virStorageFileAccess (Some d) src F_OK < 0"
    and "virStorageFileGetUniqueIdentifier (Some d) src = Inr uniqueName"
    and "uniqueName \<notin> cycle"
    and "virStorageFileReadHeader (Some d) src VIR_STORAGE_MAX_HEADER = (headerLen, buf, errs)"
    and "\<not> headerLen < 0"
    and "virStorageFileGetMetadataInternal env src buf headerLen = (r, src1, backingFormat)"
    and "\<not> r < 0"
    and "src_backingStoreRaw src1 = Some raw"
    and "virStorageSourceNewFromBacking env src1 = Some backingStore"
  shows "virStorageFileGetMetadataRecurse env src uid gid allow_probe cycle =
         Option.bind
           (virStorageFileGetMetadataRecurse env
              (set_format
                 (if backingFormat = VIR_STORAGE_FILE_AUTO \<and> \<not> allow_probe
                  then VIR_STORAGE_FILE_RAW
                  else if backingFormat = VIR_STORAGE_FILE_AUTO_SAFE
                  then VIR_STORAGE_FILE_AUTO
                  else backingFormat)
                 backingStore)
              uid gid allow_probe (insert uniqueName cycle))
           (link_backing src1)"
  using assms by (subst virStorageFileGetMetadataRecurse.simps) simp

lemma src_format_set_format: "src_format (set_format f s) = f"
  by (cases s) simp

lemma set_format_other:
  "src_path (set_format f s) = src_path s \<and> src_type (set_format f s) = src_type s
   \<and> src_protocol (set_format f s) = src_protocol s
   \<and> src_backingStoreRaw (set_format f s) = src_backingStoreRaw s
   \<and> src_backingStore (set_format f s) = src_backingStore s"
  by (cases s) simp

lemma ex_supports:
  "virStorageFileSupportsBackingChainTraversal (ex_file_env links missing) None src"
  by (simp add: virStorageFileSupportsBackingChainTraversal_def ex_file_env_def
      ex_file_backend_def)

lemma ex_init:
  "virStorageFileInitAs (ex_file_env links missing) src 0 0
     = Inr (\<lparr>drv_uid = 0, drv_gid = 0\<rparr>, ex_file_backend missing)"
  by (simp add: virStorageFileInitAs_def ex_file_env_def ex_file_backend_def)

lemma ex_access:
  "virStorageFileAccess (Some (dd, ex_file_backend missing)) src mode
     = (if src_path src \<in> set missing then -1 else 0)"
  by (simp add: virStorageFileAccess_def ex_file_backend_def)

lemma ex_unique:
  "virStorageFileGetUniqueIdentifier (Some (dd, ex_file_backend missing)) src
     = Inr (src_path src)"
  by (simp add: virStorageFileGetUniqueIdentifier_def ex_file_backend_def)

lemma ex_header:
  "virStorageFileReadHeader (Some (dd, ex_file_backend missing)) src n
     = (int (length (src_path src)), src_path src, [])"
  by (simp add: virStorageFileReadHeader_def ex_file_backend_def)

lemma ex_image_sel:
  "src_path (ex_image pa fo raw bs) = pa" "src_format (ex_image pa fo raw bs) = fo"
  "src_backingStoreRaw (ex_image pa fo raw bs) = raw"
  "src_backingStore (ex_image pa fo raw bs) = bs"
  "set_format f (ex_image pa fo raw bs) = ex_image pa f raw bs"
  "set_backingStore b (ex_image pa fo raw bs) = ex_image pa fo raw b"
  by (simp_all add: ex_image_def)

lemma ex_recurse:
  "virStorageFileGetMetadataRecurse (ex_file_env links missing) (ex_image pa fo raw bs) 0 0
       False cycle =
     (if pa \<in> set missing then Some (-1, ex_image pa fo raw bs, [cannot_access])
      else if pa \<in> cycle then Some (-1, ex_image pa fo raw bs, [self_referential])
      else
        (case map_of links pa of
           None \<Rightarrow> Some (0, ex_image pa fo None bs, [])
         | Some b \<Rightarrow>
             Option.bind
               (virStorageFileGetMetadataRecurse (ex_file_env links missing)
                  (ex_image b VIR_STORAGE_FILE_RAW None None) 0 0 False (insert pa cycle))
               (link_backing (ex_image pa fo (Some b) bs))))"
  apply (subst virStorageFileGetMetadataRecurse.simps)
  apply (simp add: ex_supports ex_init ex_access ex_unique ex_header)
  apply (auto simp: ex_file_env_def ex_image_def split: option.splits cong: if_cong)
  done

lemma getmetadata_keeps_format:
  "VIR_STORAGE_FILE_NONE < src_format src \<Longrightarrow>
     virStorageFileGetMetadata env src uid gid allow_probe
       = virStorageFileGetMetadataRecurse env src uid gid allow_probe {}"
  by (simp add: virStorageFileGetMetadata_def)

lemma ex_internal:
  "virStorageFileGetMetadataInternal (ex_file_env links missing) (ex_image pa fo raw bs) buf n
     = (0, ex_image pa fo (map_of links pa) bs, VIR_STORAGE_FILE_AUTO)"
  by (simp add: ex_file_env_def ex_image_def)

lemma ex_new_from_backing:
  "virStorageSourceNewFromBacking (ex_file_env links missing) (ex_image pa fo (Some b) bs)
     = Some (ex_image b VIR_STORAGE_FILE_NONE None None)"
  by (simp add: ex_file_env_def ex_image_def)

lemma ex_first_step:
  "\<not> virStorageFileAccess (Some (dd, ex_file_backend [])) (ex_image pa fo raw bs) F_OK < 0"
  "virStorageFileGetUniqueIdentifier (Some (dd, ex_file_backend missing)) (ex_image pa fo raw bs)
     = Inr pa"
  "virStorageFileReadHeader (Some (dd, ex_file_backend missing)) (ex_image pa fo raw bs) n
     = (int (length pa), pa, [])"
  "set_format f (ex_image pa fo raw bs) = ex_image pa f raw bs"
  by (simp_all add: ex_access ex_unique ex_header ex_image_sel)

section \<open>Format of the backing source\<close>

text \<open>
  Claim C8: when the walk constructs the next source of the chain, that source's format
  is: raw if the hinted backing format is auto and probing is not allowed; auto if the
  hinted format is auto-safe; the hinted format itself otherwise. It is that source, with
  that format and the path \<^verbatim>\<open>virStorageSourceNewFromBacking\<close> gave it, that the walk goes
  on with. If its storage type cannot be traversed it is attached as it is, carrying the
  format; if it is an image without backing file it is read and parsed as that source and
  attached as the parser left it. In both cases the step returns 0.
\<close>

theorem backing_format_policy:
  assumes "virStorageFileSupportsBackingChainTraversal env None src"
    and "virStorageFileInitAs env src uid gid = Inr d"
    and "\<not> virStorageFileAccess (Some d) src F_OK < 0"
    and "virStorageFileGetUniqueIdentifier (Some d) src = Inr uniqueName"
    and "uniqueName \<notin> cycle"
    and "virStorageFileReadHeader (Some d) src VIR_STORAGE_MAX_HEADER = (headerLen, buf, errs)"
    and "\<not> headerLen < 0"
    and "virStorageFileGetMetadataInternal env src buf headerLen = (r, src1, backingFormat)"
    and "\<not> r < 0"
    and "src_backingStoreRaw src1 = Some raw"
    and "virStorageSourceNewFromBacking env src1 = Some backingStore"
  shows "let fmt = (if backingFormat = VIR_STORAGE_FILE_AUTO \<and> \<not> allow_probe
                    then VIR_STORAGE_FILE_RAW
                    else if backingFormat = VIR_STORAGE_FILE_AUTO_SAFE
                    then VIR_STORAGE_FILE_AUTO
                    else backingFormat);
             next = set_format fmt backingStore
         in (backingFormat = VIR_STORAGE_FILE_AUTO \<and> \<not> allow_probe \<longrightarrow>
               fmt = VIR_STORAGE_FILE_RAW)
          \<and> (backingFormat = VIR_STORAGE_FILE_AUTO_SAFE \<longrightarrow> fmt = VIR_STORAGE_FILE_AUTO)
          \<and> (\<not> (backingFormat = VIR_STORAGE_FILE_AUTO \<and> \<not> allow_probe)
              \<and> backingFormat \<noteq> VIR_STORAGE_FILE_AUTO_SAFE \<longrightarrow> fmt = backingFormat)
          \<and> src_format next = fmt
          \<and> src_path next = src_path backingStore
          \<and> virStorageFileGetMetadataRecurse env src uid gid allow_probe cycle =
              Option.bind
                (virStorageFileGetMetadataRecurse env next uid gid allow_probe
                   (insert uniqueName cycle))
                (link_backing src1)
          \<and> (\<not> virStorageFileSupportsBackingChainTraversal env None next \<longrightarrow>
                virStorageFileGetMetadataRecurse env src uid gid allow_probe cycle
                  = Some (0, set_backingStore (Some next) src1, []))
          \<and> (virStorageFileSupportsBackingChainTraversal env None next
              \<and> virStorageFileInitAs env next uid gid = Inr d2
              \<and> \<not> virStorageFileAccess (Some d2) next F_OK < 0
              \<and> virStorageFileGetUniqueIdentifier (Some d2) next = Inr uniqueName2
              \<and> uniqueName2 \<notin> insert uniqueName cycle
              \<and> virStorageFileReadHeader (Some d2) next VIR_STORAGE_MAX_HEADER
                    = (headerLen2, buf2, errs2)
              \<and> \<not> headerLen2 < 0
              \<and> virStorageFileGetMetadataInternal env next buf2 headerLen2
                    = (r2, next1, backingFormat2)
              \<and> \<not> r2 < 0
              \<and> src_backingStoreRaw next1 = None \<longrightarrow>
                virStorageFileGetMetadataRecurse env next uid gid allow_probe
                    (insert uniqueName cycle) = Some (0, next1, [])
                \<and> virStorageFileGetMetadataRecurse env src uid gid allow_probe cycle
                    = Some (0, set_backingStore (Some next1) src1, []))"
proof -
  define fmt where "fmt = (if backingFormat = VIR_STORAGE_FILE_AUTO \<and> \<not> allow_probe
                    then VIR_STORAGE_FILE_RAW
                    else if backingFormat = VIR_STORAGE_FILE_AUTO_SAFE
                    then VIR_STORAGE_FILE_AUTO
                    else backingFormat)"
  define "next" where "next = set_format fmt backingStore"
  have ne: "VIR_STORAGE_FILE_AUTO_SAFE \<noteq> VIR_STORAGE_FILE_AUTO"
    by (simp add: VIR_STORAGE_FILE_AUTO_SAFE_def VIR_STORAGE_FILE_AUTO_def)
  have cases: "(backingFormat = VIR_STORAGE_FILE_AUTO \<and> \<not> allow_probe \<longrightarrow>
               fmt = VIR_STORAGE_FILE_RAW)
          \<and> (backingFormat = VIR_STORAGE_FILE_AUTO_SAFE \<longrightarrow> fmt = VIR_STORAGE_FILE_AUTO)
          \<and> (\<not> (backingFormat = VIR_STORAGE_FILE_AUTO \<and> \<not> allow_probe)
              \<and> backingFormat \<noteq> VIR_STORAGE_FILE_AUTO_SAFE \<longrightarrow> fmt = backingFormat)"
    using ne by (auto simp: fmt_def)
  have sel: "src_format next = fmt \<and> src_path next = src_path backingStore"
    by (simp add: next_def src_format_set_format set_format_other)
  have step: "virStorageFileGetMetadataRecurse env src uid gid allow_probe cycle =
              Option.bind
                (virStorageFileGetMetadataRecurse env next uid gid allow_probe
                   (insert uniqueName cycle))
                (link_backing src1)"
    unfolding next_def fmt_def by (rule recurse_descend [OF assms])
  have opaque: "\<not> virStorageFileSupportsBackingChainTraversal env None next \<longrightarrow>
                virStorageFileGetMetadataRecurse env src uid gid allow_probe cycle
                  = Some (0, set_backingStore (Some next) src1, [])"
    by (auto simp: step recurse_unsupported)
  have base: "virStorageFileSupportsBackingChainTraversal env None next
              \<and> virStorageFileInitAs env next uid gid = Inr d2
              \<and> \<not> virStorageFileAccess (Some d2) next F_OK < 0
              \<and> virStorageFileGetUniqueIdentifier (Some d2) next = Inr uniqueName2
              \<and> uniqueName2 \<notin> insert uniqueName cycle
              \<and> virStorageFileReadHeader (Some d2) next VIR_STORAGE_MAX_HEADER
                    = (headerLen2, buf2, errs2)
              \<and> \<not> headerLen2 < 0
              \<and> virStorageFileGetMetadataInternal env next buf2 headerLen2
                    = (r2, next1, backingFormat2)
              \<and> \<not> r2 < 0
              \<and> src_backingStoreRaw next1 = None \<longrightarrow>
                virStorageFileGetMetadataRecurse env next uid gid allow_probe
                    (insert uniqueName cycle) = Some (0, next1, [])
                \<and> virStorageFileGetMetadataRecurse env src uid gid allow_probe cycle
                    = Some (0, set_backingStore (Some next1) src1, [])"
  proof (intro impI, elim conjE)
    assume h: "virStorageFileSupportsBackingChainTraversal env None next"
      "virStorageFileInitAs env next uid gid = Inr d2"
      "\<not> virStorageFileAccess (Some d2) next F_OK < 0"
      "virStorageFileGetUniqueIdentifier (Some d2) next = Inr uniqueName2"
      "uniqueName2 \<notin> insert uniqueName cycle"
      "virStorageFileReadHeader (Some d2) next VIR_STORAGE_MAX_HEADER = (headerLen2, buf2, errs2)"
      "\<not> headerLen2 < 0"
      "virStorageFileGetMetadataInternal env next buf2 headerLen2 = (r2, next1, backingFormat2)"
      "\<not> r2 < 0"
      "src_backingStoreRaw next1 = None"
    have child: "virStorageFileGetMetadataRecurse env next uid gid allow_probe
                    (insert uniqueName cycle) = Some (0, next1, [])"
      by (rule recurse_terminal [OF h])
    then show "virStorageFileGetMetadataRecurse env next uid gid allow_probe
                    (insert uniqueName cycle) = Some (0, next1, [])
                \<and> virStorageFileGetMetadataRecurse env src uid gid allow_probe cycle
                    = Some (0, set_backingStore (Some next1) src1, [])"
      by (simp add: step)
  qed
  from cases sel step opaque base show ?thesis
    unfolding Let_def fmt_def [symmetric] next_def [symmetric] by blast
qed

lemma ex_safe_steps:
  "virStorageFileSupportsBackingChainTraversal (ex_file_env_safe links missing) None src"
  "virStorageFileInitAs (ex_file_env_safe links missing) src 0 0
     = Inr (\<lparr>drv_uid = 0, drv_gid = 0\<rparr>, ex_file_backend missing)"
  "virStorageFileGetMetadataInternal (ex_file_env_safe links missing) (ex_image pa fo raw bs)
       buf n
     = (0, ex_image pa fo (map_of links pa) bs, VIR_STORAGE_FILE_AUTO_SAFE)"
  "virStorageSourceNewFromBacking (ex_file_env_safe links missing) (ex_image pa fo (Some b) bs)
     = Some (ex_image b VIR_STORAGE_FILE_NONE None None)"
  by (simp_all add: virStorageFileSupportsBackingChainTraversal_def virStorageFileInitAs_def
      ex_file_env_safe_def ex_file_env_def ex_file_backend_def ex_image_def)

theorem backing_format_policy_witness:
  "virStorageFileGetMetadataRecurse (ex_file_env [(''A'', ''B'')] [])
       (ex_image ''A'' 14 None None) 0 0 False {}
     = Some (0, ex_image ''A'' 14 (Some ''B'')
                  (Some (ex_image ''B'' VIR_STORAGE_FILE_RAW None None)), [])
   \<and> virStorageFileGetMetadataRecurse (ex_file_env [(''A'', ''B'')] [])
       (ex_image ''A'' 14 None None) 0 0 True {}
     = Some (0, ex_image ''A'' 14 (Some ''B'')
                  (Some (ex_image ''B'' VIR_STORAGE_FILE_AUTO None None)), [])
   \<and> virStorageFileGetMetadataRecurse (ex_file_env_safe [(''A'', ''B'')] [])
       (ex_image ''A'' 14 None None) 0 0 False {}
     = Some (0, ex_image ''A'' 14 (Some ''B'')
                  (Some (ex_image ''B'' VIR_STORAGE_FILE_AUTO None None)), [])"
proof -
  let ?env = "ex_file_env [(''A'', ''B'')] []"
  let ?safe = "ex_file_env_safe [(''A'', ''B'')] []"
  let ?src = "ex_image ''A'' 14 None None"
  let ?d = "(\<lparr>drv_uid = 0, drv_gid = 0\<rparr>, ex_file_backend [])"
  have h3: "\<not> virStorageFileAccess (Some ?d) s F_OK < 0" for s
    by (simp add: ex_access)
  have h4: "virStorageFileGetUniqueIdentifier (Some ?d) ?src = Inr ''A''"
    by (simp add: ex_unique ex_image_sel)
  have h5: "''A'' \<notin> ({} :: string set)" by simp
  have h6: "virStorageFileReadHeader (Some ?d) ?src VIR_STORAGE_MAX_HEADER = (1, ''A'', [])"
    by (simp add: ex_header ex_image_sel)
  have h7: "\<not> (1::int) < 0" by simp
  have h8: "virStorageFileGetMetadataInternal ?env ?src ''A'' 1
              = (0, ex_image ''A'' 14 (Some ''B'') None, VIR_STORAGE_FILE_AUTO)"
    by (simp add: ex_internal)
  have h9: "\<not> (0::int) < 0" by simp
  have h10: "src_backingStoreRaw (ex_image ''A'' 14 (Some ''B'') None) = Some ''B''"
    by (simp add: ex_image_sel)
  have ne: "VIR_STORAGE_FILE_AUTO \<noteq> VIR_STORAGE_FILE_AUTO_SAFE"
    by (simp add: VIR_STORAGE_FILE_AUTO_SAFE_def VIR_STORAGE_FILE_AUTO_def)
  have c4: "virStorageFileGetUniqueIdentifier (Some ?d) (ex_image ''B'' f None None) = Inr ''B''"
    for f by (simp add: ex_unique ex_image_sel)
  have c5: "''B'' \<notin> insert ''A'' ({} :: string set)" by simp
  have c6: "virStorageFileReadHeader (Some ?d) (ex_image ''B'' f None None)
              VIR_STORAGE_MAX_HEADER = (1, ''B'', [])"
    for f by (simp add: ex_header ex_image_sel)
  have c8: "virStorageFileGetMetadataInternal ?env (ex_image ''B'' f None None) ''B'' 1
              = (0, ex_image ''B'' f None None, VIR_STORAGE_FILE_AUTO)"
    for f by (simp add: ex_internal)
  have c8s: "virStorageFileGetMetadataInternal ?safe (ex_image ''B'' f None None) ''B'' 1
              = (0, ex_image ''B'' f None None, VIR_STORAGE_FILE_AUTO_SAFE)"
    for f by (simp add: ex_safe_steps)
  have s8: "virStorageFileGetMetadataInternal ?safe ?src ''A'' 1
              = (0, ex_image ''A'' 14 (Some ''B'') None, VIR_STORAGE_FILE_AUTO_SAFE)"
    by (simp add: ex_safe_steps)
  note t1 = backing_format_policy
         [OF ex_supports ex_init h3 h4 h5 h6 h7 h8 h9 h10 ex_new_from_backing,
          where allow_probe = False and ?d2.0 = ?d and ?uniqueName2.0 = "''B''"
            and ?headerLen2.0 = 1 and ?buf2.0 = "''B''" and ?errs2.0 = "[]" and ?r2.0 = 0
            and ?next1.0 = "ex_image ''B'' VIR_STORAGE_FILE_RAW None None"
            and ?backingFormat2.0 = VIR_STORAGE_FILE_AUTO]
  note t2 = backing_format_policy
         [OF ex_supports ex_init h3 h4 h5 h6 h7 h8 h9 h10 ex_new_from_backing,
          where allow_probe = True and ?d2.0 = ?d and ?uniqueName2.0 = "''B''"
            and ?headerLen2.0 = 1 and ?buf2.0 = "''B''" and ?errs2.0 = "[]" and ?r2.0 = 0
            and ?next1.0 = "ex_image ''B'' VIR_STORAGE_FILE_AUTO None None"
            and ?backingFormat2.0 = VIR_STORAGE_FILE_AUTO]
  note t3 = backing_format_policy
         [OF ex_safe_steps(1) ex_safe_steps(2) h3 h4 h5 h6 h7 s8 h9 h10 ex_safe_steps(4),
          where allow_probe = False and ?d2.0 = ?d and ?uniqueName2.0 = "''B''"
            and ?headerLen2.0 = 1 and ?buf2.0 = "''B''" and ?errs2.0 = "[]" and ?r2.0 = 0
            and ?next1.0 = "ex_image ''B'' VIR_STORAGE_FILE_AUTO None None"
            and ?backingFormat2.0 = VIR_STORAGE_FILE_AUTO_SAFE]
  from t1 t2 t3 show ?thesis
    by (simp add: Let_def ex_image_sel ex_supports ex_init ex_safe_steps h3 c4 c6 c8 c8s ne)
qed

section \<open>Broken chains\<close>

text \<open>
  Claim C3, amended: when a source's backing reference resolves to an identity that is
  already in the visited set (its own included), the step on the backing source fails
  with the internal error "backing store is self-referential" without reading any
  further, so the walk returns. The step on the referring source drops that failure: it
  returns success, with no \<^verbatim>\<open>backingStore\<close> attached and the error left reported. So
  \<^verbatim>\<open>virStorageFileGetMetadata\<close> on such a source returns 0 with the chain cut before the
  repeated image.
\<close>

theorem self_referential_chain_truncated:
  assumes "virStorageFileSupportsBackingChainTraversal env None src"
    and "virStorageFileInitAs env src uid gid = Inr d"
    and "\<not> virStorageFileAccess (Some d) src F_OK < 0"
    and "virStorageFileGetUniqueIdentifier (Some d) src = Inr uniqueName"
    and "uniqueName \<notin> cycle"
    and "virStorageFileReadHeader (Some d) src VIR_STORAGE_MAX_HEADER = (headerLen, buf, errs)"
    and "\<not> headerLen < 0"
    and "virStorageFileGetMetadataInternal env src buf headerLen = (r, src1, backingFormat)"
    and "\<not> r < 0"
    and "src_backingStoreRaw src1 = Some raw"
    and "virStorageSourceNewFromBacking env src1 = Some backingStore"
    and "next = set_format
                  (if backingFormat = VIR_STORAGE_FILE_AUTO \<and> \<not> allow_probe
                   then VIR_STORAGE_FILE_RAW
                   else if backingFormat = VIR_STORAGE_FILE_AUTO_SAFE
                   then VIR_STORAGE_FILE_AUTO
                   else backingFormat)
                  backingStore"
    and "virStorageFileSupportsBackingChainTraversal env None next"
    and "virStorageFileInitAs env next uid gid = Inr d2"
    and "\<not> virStorageFileAccess (Some d2) next F_OK < 0"
    and "virStorageFileGetUniqueIdentifier (Some d2) next = Inr uniqueName2"
    and "uniqueName2 \<in> insert uniqueName cycle"
  shows "virStorageFileGetMetadataRecurse env next uid gid allow_probe (insert uniqueName cycle)
           = Some (-1, next, [self_referential])
       \<and> virStorageFileGetMetadataRecurse env src uid gid allow_probe cycle
           = Some (0, src1, [self_referential])
       \<and> (cycle = {} \<and> VIR_STORAGE_FILE_NONE < src_format src \<longrightarrow>
            virStorageFileGetMetadata env src uid gid allow_probe
              = Some (0, src1, [self_referential]))"
proof -
  have child: "virStorageFileGetMetadataRecurse env next uid gid allow_probe
                 (insert uniqueName cycle) = Some (-1, next, [self_referential])"
    by (rule recurse_cycle [OF assms(13-17)])
  have parent: "virStorageFileGetMetadataRecurse env src uid gid allow_probe cycle
                  = Some (0, src1, [self_referential])"
    unfolding recurse_descend [OF assms(1-11)] assms(12) [symmetric] child by simp
  from child parent show ?thesis
    by (auto simp: getmetadata_keeps_format)
qed

theorem self_referential_chain_truncated_witness:
  "virStorageFileGetMetadataRecurse (ex_file_env [(''A'', ''A'')] [])
       (ex_image ''A'' VIR_STORAGE_FILE_RAW None None) 0 0 False {''A''}
     = Some (-1, ex_image ''A'' VIR_STORAGE_FILE_RAW None None, [self_referential])
   \<and> virStorageFileGetMetadataRecurse (ex_file_env [(''A'', ''A'')] [])
       (ex_image ''A'' 14 None None) 0 0 False {}
     = Some (0, ex_image ''A'' 14 (Some ''A'') None, [self_referential])"
proof -
  let ?env = "ex_file_env [(''A'', ''A'')] []"
  let ?d = "(\<lparr>drv_uid = 0, drv_gid = 0\<rparr>, ex_file_backend [])"
  have h5: "''A'' \<notin> ({} :: string set)" by simp
  have h7: "\<not> int (length ''A'') < 0" by simp
  have h8: "virStorageFileGetMetadataInternal ?env (ex_image ''A'' 14 None None) ''A''
              (int (length ''A''))
              = (0, ex_image ''A'' 14 (Some ''A'') None, VIR_STORAGE_FILE_AUTO)"
    by (simp add: ex_internal)
  have h9: "\<not> (0::int) < 0" by simp
  have h10: "src_backingStoreRaw (ex_image ''A'' 14 (Some ''A'') None) = Some ''A''"
    by (simp add: ex_image_sel)
  have h12: "ex_image ''A'' VIR_STORAGE_FILE_RAW None None =
             set_format
               (if VIR_STORAGE_FILE_AUTO = VIR_STORAGE_FILE_AUTO \<and> \<not> False
                then VIR_STORAGE_FILE_RAW
                else if VIR_STORAGE_FILE_AUTO = VIR_STORAGE_FILE_AUTO_SAFE
                then VIR_STORAGE_FILE_AUTO
                else VIR_STORAGE_FILE_AUTO)
               (ex_image ''A'' VIR_STORAGE_FILE_NONE None None)"
    by (simp add: ex_image_sel)
  have h17: "''A'' \<in> insert ''A'' ({} :: string set)" by simp
  from self_referential_chain_truncated
         [OF ex_supports ex_init ex_first_step(1) ex_first_step(2) h5 ex_first_step(3) h7 h8 h9
             h10 ex_new_from_backing h12 ex_supports ex_init ex_first_step(1) ex_first_step(2)
             h17]
  show ?thesis by simp
qed

text \<open>
  As first stated, the claim has \<^verbatim>\<open>virStorageFileGetMetadata\<close> fail on a cyclic chain.
  On an image \<open>A\<close> whose header names \<open>A\<close> as its backing file the call returns 0.
\<close>

theorem self_referential_chain_reports_success:
  "virStorageFileGetMetadata (ex_file_env [(''A'', ''A'')] []) (ex_image ''A'' 14 None None)
       0 0 False
     = Some (0, ex_image ''A'' 14 (Some ''A'') None, [self_referential])"
  by (simp add: virStorageFileGetMetadata_def ex_image_sel ex_recurse VIR_STORAGE_FILE_NONE_def)

text \<open>
  Claim C4, amended: for a chain A, B, C where the existence check of B fails,
  \<^verbatim>\<open>virStorageFileGetMetadata\<close> on A reports success and yields A alone: the step on B
  fails with "Cannot access backing file", A's step drops the failure and B is discarded,
  so A is returned as the header parser left it, with no \<^verbatim>\<open>backingStore\<close> attached.
\<close>

theorem unreachable_backing_truncated:
  assumes "virStorageFileSupportsBackingChainTraversal env None src"
    and "virStorageFileInitAs env src uid gid = Inr d"
    and "\<not> virStorageFileAccess (Some d) src F_OK < 0"
    and "virStorageFileGetUniqueIdentifier (Some d) src = Inr uniqueName"
    and "uniqueName \<notin> cycle"
    and "virStorageFileReadHeader (Some d) src VIR_STORAGE_MAX_HEADER = (headerLen, buf, errs)"
    and "\<not> headerLen < 0"
    and "virStorageFileGetMetadataInternal env src buf headerLen = (r, src1, backingFormat)"
    and "\<not> r < 0"
    and "src_backingStoreRaw src1 = Some raw"
    and "virStorageSourceNewFromBacking env src1 = Some backingStore"
    and "next = set_format
                  (if backingFormat = VIR_STORAGE_FILE_AUTO \<and> \<not> allow_probe
                   then VIR_STORAGE_FILE_RAW
                   else if backingFormat = VIR_STORAGE_FILE_AUTO_SAFE
                   then VIR_STORAGE_FILE_AUTO
                   else backingFormat)
                  backingStore"
    and "virStorageFileSupportsBackingChainTraversal env None next"
    and "virStorageFileInitAs env next uid gid = Inr d2"
    and "virStorageFileAccess (Some d2) next F_OK < 0"
  shows "virStorageFileGetMetadataRecurse env next uid gid allow_probe (insert uniqueName cycle)
           = Some (-1, next, [cannot_access])
       \<and> virStorageFileGetMetadataRecurse env src uid gid allow_probe cycle
           = Some (0, src1, [cannot_access])
       \<and> (cycle = {} \<and> VIR_STORAGE_FILE_NONE < src_format src \<longrightarrow>
            virStorageFileGetMetadata env src uid gid allow_probe
              = Some (0, src1, [cannot_access]))"
proof -
  have child: "virStorageFileGetMetadataRecurse env next uid gid allow_probe
                 (insert uniqueName cycle) = Some (-1, next, [cannot_access])"
    by (rule recurse_access_fails [OF assms(13-15)])
  have parent: "virStorageFileGetMetadataRecurse env src uid gid allow_probe cycle
                  = Some (0, src1, [cannot_access])"
    unfolding recurse_descend [OF assms(1-11)] assms(12) [symmetric] child by simp
  from child parent show ?thesis
    by (auto simp: getmetadata_keeps_format)
qed

theorem unreachable_backing_truncated_witness:
  "virStorageFileGetMetadataRecurse (ex_file_env [(''A'', ''B''), (''B'', ''C'')] [''B''])
       (ex_image ''A'' 14 None None) 0 0 False {}
     = Some (0, ex_image ''A'' 14 (Some ''B'') None, [cannot_access])"
proof -
  let ?env = "ex_file_env [(''A'', ''B''), (''B'', ''C'')] [''B'']"
  let ?d = "(\<lparr>drv_uid = 0, drv_gid = 0\<rparr>, ex_file_backend [''B''])"
  have h3: "\<not> virStorageFileAccess (Some ?d) (ex_image ''A'' 14 None None) F_OK < 0"
    by (simp add: ex_access ex_image_sel)
  have h5: "''A'' \<notin> ({} :: string set)" by simp
  have h7: "\<not> int (length ''A'') < 0" by simp
  have h8: "virStorageFileGetMetadataInternal ?env (ex_image ''A'' 14 None None) ''A''
              (int (length ''A''))
              = (0, ex_image ''A'' 14 (Some ''B'') None, VIR_STORAGE_FILE_AUTO)"
    by (simp add: ex_internal)
  have h9: "\<not> (0::int) < 0" by simp
  have h10: "src_backingStoreRaw (ex_image ''A'' 14 (Some ''B'') None) = Some ''B''"
    by (simp add: ex_image_sel)
  have h12: "ex_image ''B'' VIR_STORAGE_FILE_RAW None None =
             set_format
               (if VIR_STORAGE_FILE_AUTO = VIR_STORAGE_FILE_AUTO \<and> \<not> False
                then VIR_STORAGE_FILE_RAW
                else if VIR_STORAGE_FILE_AUTO = VIR_STORAGE_FILE_AUTO_SAFE
                then VIR_STORAGE_FILE_AUTO
                else VIR_STORAGE_FILE_AUTO)
               (ex_image ''B'' VIR_STORAGE_FILE_NONE None None)"
    by (simp add: ex_image_sel)
  have h15: "virStorageFileAccess (Some ?d) (ex_image ''B'' VIR_STORAGE_FILE_RAW None None) F_OK
               < 0"
    by (simp add: ex_access ex_image_sel)
  from unreachable_backing_truncated
         [OF ex_supports ex_init h3 ex_first_step(2) h5 ex_first_step(3) h7 h8 h9
             h10 ex_new_from_backing h12 ex_supports ex_init h15]
  show ?thesis by simp
qed

text \<open>
  As first stated, the claim has A linked to B in the result. With B missing, A comes
  back with its raw backing name \<open>B\<close> and no backing source. The two-image chain the
  claim describes is what results when it is the third image, C, that is missing.
\<close>

theorem unreachable_backing_not_linked:
  "virStorageFileGetMetadata (ex_file_env [(''A'', ''B''), (''B'', ''C'')] [''B''])
       (ex_image ''A'' 14 None None) 0 0 False
     = Some (0, ex_image ''A'' 14 (Some ''B'') None, [cannot_access])"
  by (simp add: virStorageFileGetMetadata_def ex_image_sel ex_recurse VIR_STORAGE_FILE_NONE_def)

lemma unreachable_third_image:
  "virStorageFileGetMetadata (ex_file_env [(''A'', ''B''), (''B'', ''C'')] [''C''])
       (ex_image ''A'' 14 None None) 0 0 False
     = Some (0, ex_image ''A'' 14 (Some ''B'')
                  (Some (ex_image ''B'' VIR_STORAGE_FILE_RAW (Some ''C'') None)),
             [cannot_access])"
  by (simp add: virStorageFileGetMetadata_def ex_image_sel ex_recurse VIR_STORAGE_FILE_NONE_def)

end
